theory Spec2Isabelle
  imports Complex_Main "HOL-Library.Char_ord" "HOL-Library.List_Lexorder"
begin

section \<open>Strings: the Python string methods used by the dashboard\<close>

text \<open>
  Column names and commodity keys are Python \<^verbatim>\<open>str\<close> values. They are modelled as
  \<^typ>\<open>string\<close>, restricted to ASCII, where a character is one byte and the cased
  characters are the 52 letters.
\<close>

definition startswith :: "string \<Rightarrow> string \<Rightarrow> bool" where
  "startswith s p = (take (length p) s = p)"

text \<open>
  \<^verbatim>\<open>s.replace(old, new)\<close> without a count: every non-overlapping occurrence of
  \<^verbatim>\<open>old\<close>, scanning from the left, becomes \<^verbatim>\<open>new\<close>. An empty \<^verbatim>\<open>old\<close> matches
  before every character and at the end.
\<close>

function str_replace :: "string \<Rightarrow> string \<Rightarrow> string \<Rightarrow> string" where
  "str_replace [] old new = (if old = [] then new else [])"
| "str_replace (c # cs) old new =
     (if old = [] then new @ c # str_replace cs old new
      else if startswith (c # cs) old
        then new @ str_replace (drop (length old) (c # cs)) old new
      else c # str_replace cs old new)"
  by pat_completeness auto
termination
  by (relation "measure (\<lambda>(s, old, new). length s)") auto

definition is_upper :: "char \<Rightarrow> bool" where
  "is_upper c = (let n = (of_char c :: nat) in 65 \<le> n \<and> n \<le> 90)"

definition is_lower :: "char \<Rightarrow> bool" where
  "is_lower c = (let n = (of_char c :: nat) in 97 \<le> n \<and> n \<le> 122)"

definition is_cased :: "char \<Rightarrow> bool" where
  "is_cased c = (is_upper c \<or> is_lower c)"

definition to_upper :: "char \<Rightarrow> char" where
  "to_upper c = (if is_lower c then char_of ((of_char c :: nat) - 32) else c)"

definition to_lower :: "char \<Rightarrow> char" where
  "to_lower c = (if is_upper c then char_of ((of_char c :: nat) + 32) else c)"

text \<open>
  \<^verbatim>\<open>s.title()\<close>: a cased character that follows a cased character is lowercased, any
  other cased character is uppercased; the flag is whether the previous character was
  cased.
\<close>

fun title_from :: "bool \<Rightarrow> string \<Rightarrow> string" where
  "title_from prev [] = []"
| "title_from prev (c # cs) =
     (if prev then to_lower c else to_upper c) # title_from (is_cased c) cs"

definition title :: "string \<Rightarrow> string" where
  "title s = title_from False s"

section \<open>The loader's column rename\<close>

text \<open>
  Lines 46-55 of the dashboard script: the expression applied to every column name of the
  crop-stage and of the animal-stage table,
  \<^verbatim>\<open>col.replace("selfloop", "within_county") if col.startswith("selfloop") else col\<close>.
\<close>

definition rename_col :: "string \<Rightarrow> string" where
  "rename_col col =
     (if startswith col ''selfloop'' then str_replace col ''selfloop'' ''within_county''
      else col)"

section \<open>Errors and tables\<close>

text \<open>
  The Python exceptions the script can raise, as values. The script defines no exception
  class of its own and has no \<^verbatim>\<open>try\<close>: whatever a dictionary lookup, pandas or
  plotly raises leaves the function that raised it.
\<close>

datatype error =
    KeyError string
  | FileNotFoundError string
  | ParserError string
  | TypeError string
  | ValueError string
  | AttributeError string

fun exception_class :: "error \<Rightarrow> string" where
  "exception_class (KeyError _) = ''KeyError''"
| "exception_class (FileNotFoundError _) = ''FileNotFoundError''"
| "exception_class (ParserError _) = ''ParserError''"
| "exception_class (TypeError _) = ''TypeError''"
| "exception_class (ValueError _) = ''ValueError''"
| "exception_class (AttributeError _) = ''AttributeError''"

definition bindE :: "error + 'a \<Rightarrow> ('a \<Rightarrow> error + 'b) \<Rightarrow> error + 'b" where
  "bindE m f = (case m of Inl e \<Rightarrow> Inl e | Inr x \<Rightarrow> f x)"

text \<open>
  A pandas DataFrame is column oriented, every column with one dtype: a float column,
  where a missing cell is NaN, or an object column of strings, where a missing cell is
  None. Numbers are idealised as reals (no floating-point rounding), \<open>None\<close> is the
  missing cell. A frame is the list of its named columns in header order; the columns of
  a frame read from a file have the same length.
\<close>

datatype column = NumCol "real option list" | StrCol "string option list"

type_synonym frame = "(string \<times> column) list"

fun col_len :: "column \<Rightarrow> nat" where
  "col_len (NumCol xs) = length xs"
| "col_len (StrCol xs) = length xs"

definition columns :: "frame \<Rightarrow> string list" where
  "columns df = map fst df"

text \<open>The number of rows, and the frames whose columns all have that many cells.\<close>

definition nrows :: "frame \<Rightarrow> nat" where
  "nrows df = (case df of [] \<Rightarrow> 0 | (n, c) # _ \<Rightarrow> col_len c)"

definition wf_frame :: "frame \<Rightarrow> bool" where
  "wf_frame df = (\<forall>c \<in> set (map snd df). col_len c = nrows df)"

text \<open>\<^verbatim>\<open>df[name]\<close>: the column of that name, KeyError when there is none.\<close>

definition get_column :: "frame \<Rightarrow> string \<Rightarrow> error + column" where
  "get_column df name =
     (case map_of df name of None \<Rightarrow> Inl (KeyError name) | Some c \<Rightarrow> Inr c)"

text \<open>
  A column read for arithmetic. The CSV files ship these columns as numbers; an object
  column here is outside what the dashboard is fed and is rejected as a TypeError.
\<close>

definition get_num :: "frame \<Rightarrow> string \<Rightarrow> error + real option list" where
  "get_num df name =
     bindE (get_column df name)
       (\<lambda>c. case c of NumCol xs \<Rightarrow> Inr xs | StrCol _ \<Rightarrow> Inl (TypeError name))"

definition get_str :: "frame \<Rightarrow> string \<Rightarrow> error + string option list" where
  "get_str df name =
     bindE (get_column df name)
       (\<lambda>c. case c of StrCol xs \<Rightarrow> Inr xs | NumCol _ \<Rightarrow> Inl (TypeError name))"

text \<open>\<^verbatim>\<open>df[[n1, n2, ...]]\<close> on number columns: the first missing name raises.\<close>

fun select_num :: "frame \<Rightarrow> string list \<Rightarrow> error + real option list list" where
  "select_num df [] = Inr []"
| "select_num df (n # ns) =
     bindE (get_num df n) (\<lambda>c. bindE (select_num df ns) (\<lambda>cs. Inr (c # cs)))"

text \<open>\<^verbatim>\<open>df[name] = values\<close>: replaces the column of that name or appends a new one.\<close>

fun set_column :: "frame \<Rightarrow> string \<Rightarrow> column \<Rightarrow> frame" where
  "set_column [] name c = [(name, c)]"
| "set_column ((n, c') # df) name c =
     (if n = name then (n, c) # df else (n, c') # set_column df name c)"

text \<open>\<^verbatim>\<open>df.columns = [f(col) for col in df.columns]\<close>\<close>

definition rename_columns :: "(string \<Rightarrow> string) \<Rightarrow> frame \<Rightarrow> frame" where
  "rename_columns f df = map (\<lambda>(n, c). (f n, c)) df"

subsection \<open>Sums that skip missing values\<close>

definition val :: "real option \<Rightarrow> real" where
  "val x = (case x of None \<Rightarrow> 0 | Some v \<Rightarrow> v)"

text \<open>
  \<^verbatim>\<open>frame.sum(axis=1)\<close> over the selected columns, for a table of \<open>n\<close> rows: pandas
  skips NaN, so a missing cell adds nothing, and a row of missing cells sums to 0.
\<close>

definition sum_axis1 :: "nat \<Rightarrow> real option list list \<Rightarrow> real list" where
  "sum_axis1 n cols = foldl (\<lambda>acc c. map2 (\<lambda>a x. a + val x) acc c) (replicate n 0) cols"

text \<open>\<^verbatim>\<open>frame.sum()\<close>: one sum per selected column, missing cells skipped.\<close>

definition col_sum :: "real option list \<Rightarrow> real" where
  "col_sum c = sum_list (map val c)"

definition sum_axis0 :: "real option list list \<Rightarrow> real list" where
  "sum_axis0 cols = map col_sum cols"

subsection \<open>Grouping\<close>

text \<open>
  \<^verbatim>\<open>groupby(key)\<close> with the defaults: rows whose key is missing are dropped, the
  groups are the distinct keys in ascending order.
\<close>

definition present :: "'a option list \<Rightarrow> 'a list" where
  "present ks = concat (map (\<lambda>k. case k of None \<Rightarrow> [] | Some x \<Rightarrow> [x]) ks)"

definition group_keys :: "('k::linorder) option list \<Rightarrow> 'k list" where
  "group_keys ks = sort (remdups (present ks))"

definition group_vals :: "'k option list \<Rightarrow> 'v list \<Rightarrow> 'k \<Rightarrow> 'v list" where
  "group_vals ks vs k = map snd (filter (\<lambda>(k', v). k' = Some k) (zip ks vs))"

text \<open>The aggregation \<^verbatim>\<open>'sum'\<close> of a group skips NaN.\<close>

definition group_sum :: "'k option list \<Rightarrow> real option list \<Rightarrow> 'k \<Rightarrow> real" where
  "group_sum ks vs k = sum_list (map val (group_vals ks vs k))"

text \<open>The aggregation \<^verbatim>\<open>'first'\<close> of a group: its first value that is not missing.\<close>

fun first_valid :: "'a option list \<Rightarrow> 'a option" where
  "first_valid [] = None"
| "first_valid (None # xs) = first_valid xs"
| "first_valid (Some x # xs) = Some x"

definition group_first :: "'k option list \<Rightarrow> 'a option list \<Rightarrow> 'k \<Rightarrow> 'a option" where
  "group_first ks vs k = first_valid (group_vals ks vs k)"

section \<open>The loader\<close>

text \<open>
  \<^verbatim>\<open>os.path.join\<close> on relative components, and the table \<^verbatim>\<open>data_paths\<close> of the three
  scenario years. The directory of the script is a parameter.
\<close>

definition path_join :: "string \<Rightarrow> string \<Rightarrow> string" where
  "path_join a b = a @ ''/'' @ b"

definition data_paths :: "string \<Rightarrow> (string \<times> string) list" where
  "data_paths base_dir =
     [(''2017'', path_join (path_join base_dir ''data'') ''2017''),
      (''2030'', path_join (path_join base_dir ''data'') ''2030''),
      (''2050'', path_join (path_join base_dir ''data'') ''2050'')]"

definition crop_loss_columns :: "string list" where
  "crop_loss_columns = [''nitrogen_loss1'', ''nitrogen_loss2'']"

definition animal_loss_columns :: "string list" where
  "animal_loss_columns =
     [''nitrogen_loss3'', ''nitrogen_loss4'', ''nitrogen_loss5'', ''nitrogen_loss6'',
      ''nitrogen_loss7'']"

text \<open>
  Lines 57-63: \<^verbatim>\<open>df['total_nitrogen_loss'] = df[loss columns].sum(axis=1)\<close>.
\<close>


definition add_total :: "string list \<Rightarrow> frame \<Rightarrow> error + frame" where
  "add_total names df =
     bindE (select_num df names)
       (\<lambda>cols. Inr (set_column df ''total_nitrogen_loss''
                      (NumCol (map Some (sum_axis1 (nrows df) cols)))))"

text \<open>
  Lines 66-72: the columns FIPS, county and total_nitrogen_loss of both tables, one
  under the other, grouped by FIPS with the total summed and the first county name
  kept; \<^verbatim>\<open>reset_index\<close> puts the key first. FIPS is a number column and county a
  string column in the shipped files.
\<close>

definition county_totals ::
  "real option list \<Rightarrow> string option list \<Rightarrow> real option list \<Rightarrow> frame" where
  "county_totals fips county tot =
     (let ks = group_keys fips in
      [(''FIPS'', NumCol (map Some ks)),
       (''total_nitrogen_loss'', NumCol (map (\<lambda>k. Some (group_sum fips tot k)) ks)),
       (''county'', StrCol (map (group_first fips county) ks))])"

definition total_nitrogen :: "frame \<Rightarrow> frame \<Rightarrow> error + frame" where
  "total_nitrogen crop animal =
     bindE (get_num crop ''FIPS'') (\<lambda>cf.
     bindE (get_str crop ''county'') (\<lambda>cc.
     bindE (get_num crop ''total_nitrogen_loss'') (\<lambda>ct.
     bindE (get_num animal ''FIPS'') (\<lambda>af.
     bindE (get_str animal ''county'') (\<lambda>ac.
     bindE (get_num animal ''total_nitrogen_loss'') (\<lambda>atot.
       Inr (county_totals (cf @ af) (cc @ ac) (ct @ atot))))))))"

text \<open>
  \<^verbatim>\<open>load_data(year)\<close>. \<open>read_csv\<close> is the file system seen through
  \<^verbatim>\<open>pd.read_csv\<close>: a path gives a frame or the exception of the failed read.
\<close>

type_synonym dataset = "frame \<times> frame \<times> frame \<times> frame \<times> frame \<times> frame"

definition load_data ::
  "string \<Rightarrow> (string \<Rightarrow> error + frame) \<Rightarrow> string \<Rightarrow> error + dataset" where
  "load_data base_dir read_csv year =
     (case map_of (data_paths base_dir) year of
        None \<Rightarrow> Inl (KeyError year)
      | Some path \<Rightarrow>
     bindE (read_csv (path_join path ''nitrogen_losses_summary.csv'')) (\<lambda>nitrogen_df.
     bindE (read_csv (path_join path ''harvested_area_by_commodity.csv'')) (\<lambda>area_df.
     bindE (read_csv (path_join path ''inventory_by_commodity.csv'')) (\<lambda>inventory_df.
     bindE (read_csv (path_join path ''crop_processing_nitrogen.csv'')) (\<lambda>crop0.
     bindE (read_csv (path_join path ''animal_stage_nitrogen.csv'')) (\<lambda>animal0.
     bindE (add_total crop_loss_columns (rename_columns rename_col crop0)) (\<lambda>crop.
     bindE (add_total animal_loss_columns (rename_columns rename_col animal0)) (\<lambda>animal.
     bindE (total_nitrogen crop animal) (\<lambda>total_nitrogen_df.
       Inr (nitrogen_df, area_df, inventory_df, crop, animal, total_nitrogen_df))))))))))"

text \<open>
  The file systems whose tables are rectangular: every frame that a read returns has
  columns of one length.
\<close>

definition wf_files :: "(string \<Rightarrow> error + frame) \<Rightarrow> bool" where
  "wf_files read_csv = (\<forall>p df. read_csv p = Inr df \<longrightarrow> wf_frame df)"

section \<open>Scaling and rounding\<close>

text \<open>
  \<^verbatim>\<open>np.log1p\<close> on one cell: the logarithm of \<open>1 + x\<close> above \<open>-1\<close>, minus infinity at
  \<open>-1\<close>, NaN below and on a missing cell.
\<close>

datatype logval = LogNum real | LogNegInf | LogNaN

definition log1p :: "real option \<Rightarrow> logval" where
  "log1p c =
     (case c of
        None \<Rightarrow> LogNaN
      | Some x \<Rightarrow> if - 1 < x then LogNum (ln (1 + x))
                  else if x = - 1 then LogNegInf else LogNaN)"

text \<open>
  Rounding to zero decimals, as \<^verbatim>\<open>df.round()\<close> does it: the nearest integer, the even
  one at a tie. A tie at zero decimals is a value \<open>k + 1 / 2\<close>, which a binary float
  holds exactly.
\<close>

definition round_half_even :: "real \<Rightarrow> int" where
  "round_half_even y =
     (let f = \<lfloor>y\<rfloor>; d = y - of_int f
      in if d < 1 / 2 then f else if 1 / 2 < d then f + 1
         else if even f then f else f + 1)"

definition round0 :: "real \<Rightarrow> real" where
  "round0 x = of_int (round_half_even x)"

text \<open>
  Rounding to two decimals, as \<^verbatim>\<open>round(x, 2)\<close> does it on the float64 that holds \<open>x\<close>.
  Away from a decimal tie the result is the multiple of 0.01 nearest to \<open>x\<close>. At a
  decimal tie the float that holds \<open>x\<close> lies on the tie or just beside it, and the result
  follows the float: 0.545 and 2.345 are held by floats above the tie and show 0.55 and
  2.35, 1.015 is held by a float below it and shows 1.01, 0.125 is held exactly and
  shows the even 0.12. Which way a tie goes is a property of the binary representation
  of the value and of the float arithmetic that produced it; it is the parameter
  \<open>ties_up\<close> of the model, and nothing is assumed about it.
\<close>

definition round2 :: "(real \<Rightarrow> bool) \<Rightarrow> real \<Rightarrow> real" where
  "round2 ties_up x =
     (let y = x * 100; f = \<lfloor>y\<rfloor>; d = y - of_int f
      in of_int (if d < 1 / 2 then f else if 1 / 2 < d then f + 1
                 else if ties_up x then f + 1 else f) / 100)"

text \<open>\<^verbatim>\<open>df.round()\<close>: number columns to zero decimals, other columns as they are.\<close>

definition round_frame :: "frame \<Rightarrow> frame" where
  "round_frame df =
     map (\<lambda>(n, c). (n, case c of
                          NumCol xs \<Rightarrow> NumCol (map (map_option round0) xs)
                        | StrCol xs \<Rightarrow> StrCol xs)) df"

section \<open>The callback\<close>

definition nitrogen_loss_labels :: "(string \<times> string) list" where
  "nitrogen_loss_labels =
     [(''nitrogen_loss1'', ''N input not taken by crop''),
      (''nitrogen_loss2'', ''Crop processing N loss''),
      (''nitrogen_loss3'', ''Feed waste & manure loss''),
      (''nitrogen_loss4'', ''Slaughtering/milking/laying N loss''),
      (''nitrogen_loss5'', ''Food processing N loss''),
      (''nitrogen_loss6'', ''Food N waste''),
      (''nitrogen_loss7'', ''Human N waste'')]"

text \<open>Decimal digits of a natural number, for the f-strings.\<close>

fun str_nat :: "nat \<Rightarrow> string" where
  "str_nat n =
     (if n < 10 then [char_of (48 + n)]
      else str_nat (n div 10) @ [char_of (48 + n mod 10)])"

declare str_nat.simps [simp del]

text \<open>
  What a figure is built from. plotly raises ValueError for a column name that is not
  in the frame. The derived column \<^verbatim>\<open>log_<col>\<close> that the script stores in the frame is
  read by the figure built next and by nothing else (no later read names a column that
  starts with \<^verbatim>\<open>log_\<close>), so it is kept in the figure.
\<close>

record choropleth =
  fig_title :: string
  locations :: column
  color :: "logval list"
  hover_name :: column
  hover_data :: "real option list"

record pie =
  pie_title :: string
  pie_names :: column
  pie_values :: column

text \<open>
  A name that the header holds more than once selects a frame, not one column: storing
  the log column of it and relabelling the table of a stage raise ValueError.
\<close>

definition duplicated :: "frame \<Rightarrow> string list \<Rightarrow> bool" where
  "duplicated df names = list_ex (\<lambda>n. 1 < count_list (columns df) n) names"

definition px_column :: "frame \<Rightarrow> string \<Rightarrow> error + column" where
  "px_column df name =
     (case map_of df name of None \<Rightarrow> Inl (ValueError name) | Some c \<Rightarrow> Inr c)"

definition log_map :: "frame \<Rightarrow> string \<Rightarrow> string \<Rightarrow> error + choropleth" where
  "log_map df col ttl =
     bindE (get_num df col) (\<lambda>xs.
     bindE (if duplicated df [col] then Inl (ValueError col) else Inr ()) (\<lambda>_.
     bindE (px_column df ''FIPS'') (\<lambda>f.
     bindE (px_column df ''county'') (\<lambda>c.
       Inr \<lparr>fig_title = ttl, locations = f, color = map log1p xs, hover_name = c,
            hover_data = xs\<rparr>))))"

text \<open>A loop that appends one result per element and stops at the first exception.\<close>

fun sequenceE :: "(error + 'a) list \<Rightarrow> error + 'a list" where
  "sequenceE [] = Inr []"
| "sequenceE (m # ms) = bindE m (\<lambda>x. bindE (sequenceE ms) (\<lambda>xs. Inr (x # xs)))"

text \<open>Lines 155-180: one map per loss category, the first two on the crop table.\<close>

definition loss_maps :: "frame \<Rightarrow> frame \<Rightarrow> error + choropleth list" where
  "loss_maps crop_df animal_df =
     sequenceE (map (\<lambda>(i, (col, label)).
                  log_map (if i < 2 then crop_df else animal_df) col
                    (''Nitrogen Loss Stage '' @ str_nat (i + 1) @ '': '' @ label))
                (enumerate 0 nitrogen_loss_labels))"

text \<open>
  Lines 209-223: the summary table. The total is rounded once, from the unrounded
  sums; each category value is rounded on its own. The callback rounds to two decimals
  in six calls, and every call has its own tie rule, numbered in the order of the
  script: 0 is the total (lines 209-213, where the float is a sum of two quotients),
  1 and 2 are the category values of the crop and of the animal table (lines 218-220),
  3, 4 and 5 are the tables of the three stages (line 283).
\<close>

definition total_nitrogen_loss ::
  "(real \<Rightarrow> bool) \<Rightarrow> real option list list \<Rightarrow> real option list list \<Rightarrow> real" where
  "total_nitrogen_loss ties_up crop_cols animal_cols =
     round2 ties_up (sum_list (sum_axis0 crop_cols) / 10 ^ 6 +
                     sum_list (sum_axis0 animal_cols) / 10 ^ 6)"

definition category_values :: "(real \<Rightarrow> bool) \<Rightarrow> real option list list \<Rightarrow> real list" where
  "category_values ties_up cols = map (\<lambda>s. round2 ties_up (s / 10 ^ 6)) (sum_axis0 cols)"

definition nitrogen_loss_table ::
  "(nat \<Rightarrow> real \<Rightarrow> bool) \<Rightarrow> frame \<Rightarrow> frame
     \<Rightarrow> error + (string \<times> string \<times> real) list" where
  "nitrogen_loss_table ties_up crop_df animal_df =
     bindE (select_num crop_df crop_loss_columns) (\<lambda>cc.
     bindE (select_num animal_df animal_loss_columns) (\<lambda>ac.
       Inr (zip (map (\<lambda>i. ''Nitrogen Loss Stage '' @ str_nat i) [1..<8]
                   @ [''Total Nitrogen Loss''])
             (zip (map snd nitrogen_loss_labels @ [''Total Nitrogen Loss''])
                  (category_values (ties_up 1) cc @ category_values (ties_up 2) ac
                     @ [total_nitrogen_loss (ties_up 0) cc ac])))))"

text \<open>
  Lines 280-289: the table of a stage. The rows are grouped by the commodity key as it
  is in the file; the label is formatted after the grouping.
\<close>

definition format_commodity :: "string \<Rightarrow> string" where
  "format_commodity s = str_replace (title s) ''_'' '' ''"

definition commodity_table ::
  "(real \<Rightarrow> bool) \<Rightarrow> string option list \<Rightarrow> real option list list \<Rightarrow> frame" where
  "commodity_table ties_up commodity cols =
     (let ks = group_keys commodity;
          m = (\<lambda>c. NumCol (map (\<lambda>k. Some (round2 ties_up (group_sum commodity c k / 10 ^ 6)))
                        ks))
      in zip [''Commodity'', ''Import (K Tons)'', ''Export (K Tons)'',
              ''Within County (K Tons)'']
             (StrCol (map (\<lambda>k. Some (format_commodity k)) ks) # map m cols))"

definition stage_table ::
  "(real \<Rightarrow> bool) \<Rightarrow> frame \<Rightarrow> string list \<Rightarrow> error + frame" where
  "stage_table ties_up stage_df cols =
     bindE (get_column stage_df ''commodity'') (\<lambda>c.
     bindE (select_num stage_df cols) (\<lambda>ms.
       if duplicated stage_df (''commodity'' # cols) then Inl (ValueError ''commodity'')
       else case c of StrCol ks \<Rightarrow> Inr (commodity_table ties_up ks ms)
                    | NumCol _ \<Rightarrow> Inl (AttributeError ''str'')))"

definition stage_names :: "string list" where
  "stage_names = [''Crop Processing'', ''Animal Nitrogen'', ''Meat Nitrogen'']"

definition stage_columns :: "string list list" where
  "stage_columns =
     [[''import_crop_processing_nitrogen'', ''export_crop_processing_nitrogen'',
       ''within_county_crop_processing_nitrogen''],
      [''import_animal_nitrogen'', ''export_animal_nitrogen'',
       ''within_county_animal_nitrogen''],
      [''import_meat_nitrogen'', ''export_meat_nitrogen'', ''within_county_meat_nitrogen'']]"

definition stage_section ::
  "(real \<Rightarrow> bool) \<Rightarrow> frame \<Rightarrow> string list \<Rightarrow> error + choropleth list \<times> frame" where
  "stage_section ties_up stage_df cols =
     bindE (sequenceE (map (\<lambda>col. log_map stage_df col (title (str_replace col ''_'' '' '')))
                        cols)) (\<lambda>stage_maps.
     bindE (stage_table ties_up stage_df cols) (\<lambda>table_data.
       Inr (stage_maps, table_data)))"

definition import_export_sections ::
  "(nat \<Rightarrow> real \<Rightarrow> bool) \<Rightarrow> frame \<Rightarrow> frame
     \<Rightarrow> error + (choropleth list \<times> frame) list" where
  "import_export_sections ties_up crop_df animal_df =
     sequenceE (map (\<lambda>(idx, stage_df, cols). stage_section (ties_up (3 + idx)) stage_df cols)
                 (enumerate 0 (zip [crop_df, animal_df, animal_df] stage_columns)))"

text \<open>
  Lines 303-331: the commodity labels are formatted, the two pie charts are built, and
  only then are the frames rounded for the two tables.
\<close>

definition format_commodity_column :: "frame \<Rightarrow> error + frame" where
  "format_commodity_column df =
     (case map_of df ''Commodity'' of
        None \<Rightarrow> Inr df
      | Some (StrCol xs) \<Rightarrow>
          Inr (set_column df ''Commodity'' (StrCol (map (map_option format_commodity) xs)))
      | Some (NumCol _) \<Rightarrow> Inl (AttributeError ''str''))"

definition px_pie :: "frame \<Rightarrow> string \<Rightarrow> string \<Rightarrow> string \<Rightarrow> error + pie" where
  "px_pie df nm vl ttl =
     bindE (px_column df nm) (\<lambda>n.
     bindE (px_column df vl) (\<lambda>v.
       Inr \<lparr>pie_title = ttl, pie_names = n, pie_values = v\<rparr>))"

record inventory_harvest =
  inventory_chart :: pie
  area_chart :: pie
  inventory_table :: frame
  area_table :: frame

definition inventory_harvest_section :: "frame \<Rightarrow> frame \<Rightarrow> error + inventory_harvest" where
  "inventory_harvest_section inventory_df0 area_df0 =
     bindE (format_commodity_column inventory_df0) (\<lambda>inventory_df.
     bindE (format_commodity_column area_df0) (\<lambda>area_df.
     bindE (px_pie inventory_df ''Commodity'' ''Total Inventory (head)''
              ''Inventory by Commodity'') (\<lambda>ic.
     bindE (px_pie area_df ''Commodity'' ''Total Harvested Area (Acre)''
              ''Harvested Area by Commodity'') (\<lambda>ac.
       Inr \<lparr>inventory_chart = ic, area_chart = ac,
            inventory_table = round_frame inventory_df,
            area_table = round_frame area_df\<rparr>))))"

text \<open>
  \<^verbatim>\<open>update_dashboard(selected_year)\<close>: the five outputs of the callback, or the
  exception that ended it. What the callback takes from its environment are the
  parameters before the year: the way ties go in each of the six calls that round to
  two decimals, the directory of the script and the file system.
\<close>

record dashboard =
  maps :: "choropleth list"
  loss_table :: "(string \<times> string \<times> real) list"
  sections :: "(choropleth list \<times> frame) list"
  import_export_maps :: "choropleth list"
  inventory_harvest :: inventory_harvest

definition update_dashboard ::
  "(nat \<Rightarrow> real \<Rightarrow> bool) \<Rightarrow> string \<Rightarrow> (string \<Rightarrow> error + frame) \<Rightarrow> string
     \<Rightarrow> error + dashboard" where
  "update_dashboard ties_up base_dir read_csv selected_year =
     bindE (load_data base_dir read_csv selected_year)
       (\<lambda>(nitrogen_df, area_df, inventory_df, crop_df, animal_df, total_nitrogen_df).
     bindE (loss_maps crop_df animal_df) (\<lambda>ms.
     bindE (log_map total_nitrogen_df ''total_nitrogen_loss''
              ''Total Nitrogen Loss by County'') (\<lambda>total_loss_fig.
     bindE (nitrogen_loss_table ties_up crop_df animal_df) (\<lambda>tbl.
     bindE (import_export_sections ties_up crop_df animal_df) (\<lambda>secs.
     bindE (inventory_harvest_section inventory_df area_df) (\<lambda>ih.
       Inr \<lparr>maps = ms @ [total_loss_fig], loss_table = tbl, sections = secs,
            import_export_maps = [], inventory_harvest = ih\<rparr>))))))"

text \<open>
  The column \<^verbatim>\<open>Total (K Tons)\<close> of the summary table of a run: the seven category
  values and the total, in the order of the rows.
\<close>

definition total_column :: "(string \<times> string \<times> real) list \<Rightarrow> real list" where
  "total_column tbl = map (\<lambda>(i, l, v). v) tbl"

definition table_values :: "error + dashboard \<Rightarrow> error + real list" where
  "table_values r = map_sum id (\<lambda>d. total_column (loss_table d)) r"

section \<open>Sample data\<close>

text \<open>
  Small tables in the layout of the shipped CSV files, and file systems that hold them
  under the 2017 directory of \<^verbatim>\<open>/srv\<close>. No value that the sample runs round to two
  decimals is at a decimal tie, so the tie rule they are run with, \<open>ties_to_even\<close> in
  every call, decides nothing in them. In \<open>sample_crop\<close> and \<open>sample_animal\<close> every
  crop loss column sums to \<open>10 ^ 6\<close> and every animal loss column to \<open>2 * 10 ^ 6\<close>, with
  a missing cell in two of them; in \<open>doubled_crop\<close> and \<open>doubled_animal\<close> each of the two
  rows holds that value.
\<close>

definition ties_to_even :: "nat \<Rightarrow> real \<Rightarrow> bool" where
  "ties_to_even call x = odd \<lfloor>x * 100\<rfloor>"

definition crop_frame :: "real option list \<Rightarrow> real option list \<Rightarrow> frame" where
  "crop_frame l1 l2 =
     [(''FIPS'', NumCol [Some 24001, Some 24003]),
      (''county'', StrCol [Some ''Allegany'', Some ''Anne Arundel'']),
      (''commodity'', StrCol [Some ''corn_grain'', Some ''wheat'']),
      (''nitrogen_loss1'', NumCol l1),
      (''nitrogen_loss2'', NumCol l2),
      (''import_crop_processing_nitrogen'', NumCol [Some 10, Some 20]),
      (''export_crop_processing_nitrogen'', NumCol [Some 30, Some 0]),
      (''selfloop_crop_processing_nitrogen'', NumCol [Some 5, Some 7])]"

definition animal_frame :: "real option list list \<Rightarrow> frame" where
  "animal_frame ls =
     [(''FIPS'', NumCol [Some 24003, Some 24005]),
      (''county'', StrCol [None, Some ''Baltimore'']),
      (''commodity'', StrCol [Some ''beef'', Some ''beef''])]
     @ zip animal_loss_columns (map NumCol ls)
     @ [(''import_animal_nitrogen'', NumCol [Some 1, Some 2]),
        (''export_animal_nitrogen'', NumCol [Some 3, Some 4]),
        (''selfloop_animal_nitrogen'', NumCol [Some 5, Some 6]),
        (''import_meat_nitrogen'', NumCol [Some 7, Some 8]),
        (''export_meat_nitrogen'', NumCol [Some 9, Some 10]),
        (''selfloop_meat_nitrogen'', NumCol [Some 11, Some 12])]"

definition sample_crop :: frame where
  "sample_crop = crop_frame [Some 500000, Some 500000] [Some 1000000, None]"

definition sample_animal :: frame where
  "sample_animal =
     animal_frame [[Some 2000000, Some 0], [Some 1000000, Some 1000000],
                   [None, Some 2000000], [Some 1500000, Some 500000],
                   [Some 2000000, Some 0]]"

definition doubled_crop :: frame where
  "doubled_crop = crop_frame [Some 1000000, Some 1000000] [Some 1000000, Some 1000000]"

definition doubled_animal :: frame where
  "doubled_animal =
     animal_frame [[Some 2000000, Some 2000000],
                   [Some 2000000, Some 2000000],
                   [Some 2000000, Some 2000000],
                   [Some 2000000, Some 2000000],
                   [Some 2000000, Some 2000000]]"

definition sample_inventory :: frame where
  "sample_inventory =
     [(''Commodity'', StrCol [Some ''beef_cattle'', Some ''HOGS'']),
      (''Total Inventory (head)'', NumCol [Some (5 / 2), Some (37 / 10)])]"

definition sample_area :: frame where
  "sample_area =
     [(''Commodity'', StrCol [Some ''corn_grain'', Some ''wheat'']),
      (''Total Harvested Area (Acre)'', NumCol [Some (7 / 2), Some (1249 / 100)])]"

definition sample_summary :: frame where
  "sample_summary = [(''nitrogen_loss'', NumCol [Some 1])]"

definition sample_files :: "frame \<Rightarrow> frame \<Rightarrow> string \<Rightarrow> error + frame" where
  "sample_files crop animal p =
     (if p = ''/srv/data/2017/nitrogen_losses_summary.csv'' then Inr sample_summary
      else if p = ''/srv/data/2017/harvested_area_by_commodity.csv'' then Inr sample_area
      else if p = ''/srv/data/2017/inventory_by_commodity.csv'' then Inr sample_inventory
      else if p = ''/srv/data/2017/crop_processing_nitrogen.csv'' then Inr crop
      else if p = ''/srv/data/2017/animal_stage_nitrogen.csv'' then Inr animal
      else Inl (FileNotFoundError p))"



definition sixes_crop :: frame where
  "sixes_crop = crop_frame [Some 6000, Some 0] [Some 3000, Some 3000]"

definition sixes_animal :: frame where
  "sixes_animal =
     animal_frame [[Some 6000, None],
                   [Some 6000, None],
                   [Some 6000, None],
                   [Some 6000, None],
                   [Some 6000, None]]"








text \<open>
  What the loader makes of a crop table and an animal table of that layout: the
  self-loop columns renamed and the row totals appended.
\<close>

definition loaded_crop_frame :: "real option list \<Rightarrow> real option list \<Rightarrow> frame" where
  "loaded_crop_frame l1 l2 =
     [(''FIPS'', NumCol [Some 24001, Some 24003]),
      (''county'', StrCol [Some ''Allegany'', Some ''Anne Arundel'']),
      (''commodity'', StrCol [Some ''corn_grain'', Some ''wheat'']),
      (''nitrogen_loss1'', NumCol l1),
      (''nitrogen_loss2'', NumCol l2),
      (''import_crop_processing_nitrogen'', NumCol [Some 10, Some 20]),
      (''export_crop_processing_nitrogen'', NumCol [Some 30, Some 0]),
      (''within_county_crop_processing_nitrogen'', NumCol [Some 5, Some 7]),
      (''total_nitrogen_loss'', NumCol (map Some (sum_axis1 2 [l1, l2])))]"

definition loaded_animal_frame :: "real option list list \<Rightarrow> frame" where
  "loaded_animal_frame ls =
     [(''FIPS'', NumCol [Some 24003, Some 24005]),
      (''county'', StrCol [None, Some ''Baltimore'']),
      (''commodity'', StrCol [Some ''beef'', Some ''beef''])]
     @ zip animal_loss_columns (map NumCol ls)
     @ [(''import_animal_nitrogen'', NumCol [Some 1, Some 2]),
        (''export_animal_nitrogen'', NumCol [Some 3, Some 4]),
        (''within_county_animal_nitrogen'', NumCol [Some 5, Some 6]),
        (''import_meat_nitrogen'', NumCol [Some 7, Some 8]),
        (''export_meat_nitrogen'', NumCol [Some 9, Some 10]),
        (''within_county_meat_nitrogen'', NumCol [Some 11, Some 12]),
        (''total_nitrogen_loss'', NumCol (map Some (sum_axis1 2 ls)))]"

definition loaded_total_frame :: "real option list list \<Rightarrow> real option list list \<Rightarrow> frame" where
  "loaded_total_frame cs ls =
     county_totals [Some 24001, Some 24003, Some 24003, Some 24005]
       [Some ''Allegany'', Some ''Anne Arundel'', None, Some ''Baltimore'']
       (map Some (sum_axis1 2 cs) @ map Some (sum_axis1 2 ls))"

text \<open>What the loader returns for the sample tables.\<close>

definition loaded_crop :: frame where
  "loaded_crop =
     [(''FIPS'', NumCol [Some 24001, Some 24003]),
      (''county'', StrCol [Some ''Allegany'', Some ''Anne Arundel'']),
      (''commodity'', StrCol [Some ''corn_grain'', Some ''wheat'']),
      (''nitrogen_loss1'', NumCol [Some 500000, Some 500000]),
      (''nitrogen_loss2'', NumCol [Some 1000000, None]),
      (''import_crop_processing_nitrogen'', NumCol [Some 10, Some 20]),
      (''export_crop_processing_nitrogen'', NumCol [Some 30, Some 0]),
      (''within_county_crop_processing_nitrogen'', NumCol [Some 5, Some 7]),
      (''total_nitrogen_loss'', NumCol [Some 1500000, Some 500000])]"

definition loaded_animal :: frame where
  "loaded_animal =
     [(''FIPS'', NumCol [Some 24003, Some 24005]),
      (''county'', StrCol [None, Some ''Baltimore'']),
      (''commodity'', StrCol [Some ''beef'', Some ''beef'']),
      (''nitrogen_loss3'', NumCol [Some 2000000, Some 0]),
      (''nitrogen_loss4'', NumCol [Some 1000000, Some 1000000]),
      (''nitrogen_loss5'', NumCol [None, Some 2000000]),
      (''nitrogen_loss6'', NumCol [Some 1500000, Some 500000]),
      (''nitrogen_loss7'', NumCol [Some 2000000, Some 0]),
      (''import_animal_nitrogen'', NumCol [Some 1, Some 2]),
      (''export_animal_nitrogen'', NumCol [Some 3, Some 4]),
      (''within_county_animal_nitrogen'', NumCol [Some 5, Some 6]),
      (''import_meat_nitrogen'', NumCol [Some 7, Some 8]),
      (''export_meat_nitrogen'', NumCol [Some 9, Some 10]),
      (''within_county_meat_nitrogen'', NumCol [Some 11, Some 12]),
      (''total_nitrogen_loss'', NumCol [Some 6500000, Some 3500000])]"

definition loaded_total :: frame where
  "loaded_total =
     [(''FIPS'', NumCol [Some 24001, Some 24003, Some 24005]),
      (''total_nitrogen_loss'', NumCol [Some 1500000, Some 7000000, Some 3500000]),
      (''county'', StrCol [Some ''Allegany'', Some ''Anne Arundel'', Some ''Baltimore''])]"

text \<open>
  Tables for the county names: the key 24003 is in three rows, of which the first has no
  name and the other two have different names, one in each table.
\<close>

definition names_crop :: frame where
  "names_crop =
     [(''FIPS'', NumCol [Some 24003, Some 24001, Some 24003]),
      (''county'', StrCol [None, Some ''Allegany'', Some ''Anne Arundel'']),
      (''commodity'', StrCol [Some ''corn_grain'', Some ''wheat'', Some ''wheat'']),
      (''nitrogen_loss1'', NumCol [Some 100, Some 200, Some 300]),
      (''nitrogen_loss2'', NumCol [Some 10, None, Some 30])]"

definition names_animal :: frame where
  "names_animal =
     [(''FIPS'', NumCol [Some 24003, Some 24005]),
      (''county'', StrCol [Some ''A. Arundel County'', Some ''Baltimore'']),
      (''commodity'', StrCol [Some ''beef'', Some ''beef'']),
      (''nitrogen_loss3'', NumCol [Some 1, Some 2]),
      (''nitrogen_loss4'', NumCol [Some 1, Some 2]),
      (''nitrogen_loss5'', NumCol [Some 1, Some 2]),
      (''nitrogen_loss6'', NumCol [Some 1, Some 2]),
      (''nitrogen_loss7'', NumCol [Some 1, None])]"

definition names_total :: frame where
  "names_total =
     [(''FIPS'', NumCol [Some 24001, Some 24003, Some 24005]),
      (''total_nitrogen_loss'', NumCol [Some 200, Some 445, Some 8]),
      (''county'', StrCol [Some ''Allegany'', Some ''Anne Arundel'', Some ''Baltimore''])]"

definition names_crop_loaded :: frame where
  "names_crop_loaded =
     names_crop @ [(''total_nitrogen_loss'', NumCol [Some 110, Some 200, Some 330])]"

definition names_animal_loaded :: frame where
  "names_animal_loaded = names_animal @ [(''total_nitrogen_loss'', NumCol [Some 5, Some 8])]"

definition no_files :: "string \<Rightarrow> error + frame" where
  "no_files p = Inl (FileNotFoundError p)"

section \<open>Auxiliary facts\<close>

lemma bindE_Inl [simp]: "bindE (Inl e) f = Inl e"
  by (simp add: bindE_def)

lemma bindE_Inr [simp]: "bindE (Inr x) f = f x"
  by (simp add: bindE_def)

lemma bindE_eq_Inr: "bindE m f = Inr y \<longleftrightarrow> (\<exists>x. m = Inr x \<and> f x = Inr y)"
  by (cases m) simp_all

lemma bindE_eq_Inl: "bindE m f = Inl e \<longleftrightarrow> (m = Inl e \<or> (\<exists>x. m = Inr x \<and> f x = Inl e))"
  by (cases m) auto

lemma get_num_Inr: "get_num df name = Inr xs \<longleftrightarrow> map_of df name = Some (NumCol xs)"
  by (auto simp: get_num_def get_column_def split: option.splits column.splits)

lemma get_str_Inr: "get_str df name = Inr xs \<longleftrightarrow> map_of df name = Some (StrCol xs)"
  by (auto simp: get_str_def get_column_def split: option.splits column.splits)

lemma wf_frame_col_len: "wf_frame df \<Longrightarrow> map_of df name = Some c \<Longrightarrow> col_len c = nrows df"
  by (auto simp: wf_frame_def dest!: map_of_SomeD)

lemma map_of_set_column:
  "map_of (set_column df name c) n = (if n = name then Some c else map_of df n)"
  by (induction df name c rule: set_column.induct) auto

lemma nrows_set_column:
  "df \<noteq> [] \<Longrightarrow> col_len c = nrows df \<Longrightarrow> nrows (set_column df name c) = nrows df"
  by (cases df) (auto simp: nrows_def)

lemma map_snd_rename_columns [simp]: "map snd (rename_columns f df) = map snd df"
  by (induction df) (auto simp: rename_columns_def)

lemma nrows_rename_columns [simp]: "nrows (rename_columns f df) = nrows df"
  by (cases df) (auto simp: nrows_def rename_columns_def)

lemma wf_frame_rename_columns [simp]: "wf_frame (rename_columns f df) = wf_frame df"
  by (simp add: wf_frame_def)

lemma length_foldl_add:
  "length acc = n \<Longrightarrow> \<forall>c \<in> set cols. length c = n \<Longrightarrow>
   length (foldl (\<lambda>acc c. map2 (\<lambda>a x. a + val x) acc c) acc cols) = n"
  by (induction cols arbitrary: acc) auto

lemma length_sum_axis1:
  "\<forall>c \<in> set cols. length c = n \<Longrightarrow> length (sum_axis1 n cols) = n"
  by (simp add: sum_axis1_def length_foldl_add)

lemma nth_foldl_add:
  "length acc = n \<Longrightarrow> \<forall>c \<in> set cols. length c = n \<Longrightarrow> r < n \<Longrightarrow>
   foldl (\<lambda>acc c. map2 (\<lambda>a x. a + val x) acc c) acc cols ! r
     = acc ! r + sum_list (map (\<lambda>c. val (c ! r)) cols)"
  by (induction cols arbitrary: acc) (auto simp: algebra_simps)

lemma nth_sum_axis1:
  "\<forall>c \<in> set cols. length c = n \<Longrightarrow> r < n \<Longrightarrow>
   sum_axis1 n cols ! r = sum_list (map (\<lambda>c. val (c ! r)) cols)"
  by (simp add: sum_axis1_def nth_foldl_add)

lemma select_num_Inr:
  "select_num df ns = Inr cs \<longleftrightarrow> map (map_of df) ns = map (Some \<circ> NumCol) cs"
  by (induction ns arbitrary: cs) (auto simp: bindE_eq_Inr get_num_Inr Cons_eq_map_conv)



lemma load_data_Inr:
  assumes "load_data base_dir read_csv year = Inr (n, a, i, crop, animal, tot)"
  shows "\<exists>path crop0 animal0.
           map_of (data_paths base_dir) year = Some path \<and>
           read_csv (path_join path ''crop_processing_nitrogen.csv'') = Inr crop0 \<and>
           read_csv (path_join path ''animal_stage_nitrogen.csv'') = Inr animal0 \<and>
           add_total crop_loss_columns (rename_columns rename_col crop0) = Inr crop \<and>
           add_total animal_loss_columns (rename_columns rename_col animal0) = Inr animal \<and>
           total_nitrogen crop animal = Inr tot"
  using assms by (auto simp: load_data_def bindE_eq_Inr split: option.splits)

lemma add_total_Inr:
  assumes "add_total names df = Inr df'" and "wf_frame df" and "names \<noteq> []"
  shows "\<exists>cols. select_num df names = Inr cols \<and>
           (\<forall>c \<in> set cols. length c = nrows df) \<and>
           nrows df' = nrows df \<and>
           map_of df' ''total_nitrogen_loss''
             = Some (NumCol (map Some (sum_axis1 (nrows df) cols))) \<and>
           (\<forall>n. n \<noteq> ''total_nitrogen_loss'' \<longrightarrow> map_of df' n = map_of df n)"
proof -
  from assms(1) obtain cols where sel: "select_num df names = Inr cols"
    and df': "df' = set_column df ''total_nitrogen_loss''
                      (NumCol (map Some (sum_axis1 (nrows df) cols)))"
    by (auto simp: add_total_def bindE_eq_Inr)
  have len: "\<forall>c \<in> set cols. length c = nrows df"
  proof
    fix c assume "c \<in> set cols"
    then have "Some (NumCol c) \<in> set (map (map_of df) names)"
      using sel by (auto simp: select_num_Inr)
    then obtain n where "map_of df n = Some (NumCol c)" by auto
    from wf_frame_col_len [OF assms(2) this] show "length c = nrows df" by simp
  qed
  from sel assms(3) have "df \<noteq> []"
    by (cases names) (auto simp: bindE_eq_Inr get_num_Inr)
  then have "nrows df' = nrows df"
    unfolding df' by (rule nrows_set_column) (simp add: length_sum_axis1 len)
  with sel len show ?thesis
    by (auto simp: df' map_of_set_column)
qed

lemma load_data_sample:
  "load_data ''/srv'' (sample_files sample_crop sample_animal) ''2017''
     = Inr (sample_summary, sample_area, sample_inventory, loaded_crop, loaded_animal,
            loaded_total)"
  by code_simp


lemma select_num_two:
  "select_num df [a, b] = Inr cols \<longleftrightarrow>
     (\<exists>x y. cols = [x, y] \<and> get_num df a = Inr x \<and> get_num df b = Inr y)"
  by (auto simp: bindE_eq_Inr)

lemma select_num_five:
  "select_num df [a, b, c, d, e] = Inr cols \<longleftrightarrow>
     (\<exists>x y z u v. cols = [x, y, z, u, v] \<and> get_num df a = Inr x \<and> get_num df b = Inr y \<and>
        get_num df c = Inr z \<and> get_num df d = Inr u \<and> get_num df e = Inr v)"
  by (auto simp: bindE_eq_Inr)

lemma wf_sample_files:
  "wf_frame crop \<Longrightarrow> wf_frame animal \<Longrightarrow> wf_files (sample_files crop animal)"
  by (auto simp: wf_files_def sample_files_def wf_frame_def nrows_def sample_summary_def sample_area_def
        sample_inventory_def split: if_splits)

lemma wf_sample_crop: "wf_frame sample_crop"
  by (simp add: wf_frame_def nrows_def sample_crop_def crop_frame_def)

lemma wf_sample_animal: "wf_frame sample_animal"
  by (simp add: wf_frame_def nrows_def sample_animal_def animal_frame_def
        animal_loss_columns_def)


lemma round_half_even_of_int [simp]: "round_half_even (of_int n) = n"
  by (simp add: round_half_even_def)

lemma round2_hundredth: "\<exists>n::int. round2 ties_up x = of_int n / 100"
  unfolding round2_def Let_def by blast

lemma round2_fixed: "round2 ties_up x = x \<Longrightarrow> \<exists>n::int. x = of_int n / 100"
  using round2_hundredth [of ties_up x] by simp

lemma round2_hundredths: "round2 ties_up (of_int n / 100) = of_int n / 100"
  by (simp add: round2_def)

lemma round2_close: "\<bar>x - round2 ties_up x\<bar> \<le> 1 / 200"
proof -
  have "of_int \<lfloor>x * 100\<rfloor> \<le> x * 100" "x * 100 < of_int \<lfloor>x * 100\<rfloor> + 1" by linarith+
  then show ?thesis
    by (auto simp: round2_def Let_def field_simps)
qed

lemma round2_off_tie:
  "x * 100 - of_int \<lfloor>x * 100\<rfloor> \<noteq> 1 / 2 \<Longrightarrow> round2 ties_up x = round2 ties_up' x"
  by (simp add: round2_def Let_def)

lemma round2_on_tie:
  "x * 100 - of_int \<lfloor>x * 100\<rfloor> = 1 / 2 \<Longrightarrow>
   round2 ties_up x = of_int (if ties_up x then \<lfloor>x * 100\<rfloor> + 1 else \<lfloor>x * 100\<rfloor>) / 100"
  by (simp add: round2_def Let_def)

lemma round2_ties_examples:
  "round2 (\<lambda>x. True) (545000 / 10 ^ 6) = 55 / 100"
  "round2 (\<lambda>x. False) (545000 / 10 ^ 6) = 54 / 100"
  "round2 (\<lambda>x. True) (2345000 / 10 ^ 6) = 235 / 100"
  "round2 (\<lambda>x. False) (1015000 / 10 ^ 6) = 101 / 100"
  "round2 ties_up (546000 / 10 ^ 6) = 55 / 100"
  by (simp_all add: round2_def Let_def)

lemma rename_col_other: "\<not> startswith col ''selfloop'' \<Longrightarrow> rename_col col = col"
  by (simp add: rename_col_def)

lemma rename_col_prefix:
  assumes "startswith col ''selfloop''"
  shows "startswith (rename_col col) ''within_county''"
    and "\<not> startswith (rename_col col) ''selfloop''"
proof -
  from assms obtain c cs where col: "col = c # cs"
    by (cases col) (auto simp: startswith_def)
  from assms have "rename_col col
      = ''within_county'' @ str_replace (drop (length ''selfloop'') col) ''selfloop'' ''within_county''"
    unfolding col by (simp add: rename_col_def)
  then show "startswith (rename_col col) ''within_county''"
    and "\<not> startswith (rename_col col) ''selfloop''"
    by (simp_all add: startswith_def)
qed

lemma columns_rename_no_prefix:
  "\<forall>n \<in> set (columns (rename_columns rename_col df)). \<not> startswith n ''selfloop''"
  using rename_col_prefix(2) rename_col_other
  by (fastforce simp: columns_def rename_columns_def)

lemma rename_col_sample:
  "rename_col ''FIPS'' = ''FIPS''" "rename_col ''county'' = ''county''"
  "rename_col ''commodity'' = ''commodity''"
  "rename_col ''nitrogen_loss1'' = ''nitrogen_loss1''"
  "rename_col ''nitrogen_loss2'' = ''nitrogen_loss2''"
  "rename_col ''nitrogen_loss3'' = ''nitrogen_loss3''"
  "rename_col ''nitrogen_loss4'' = ''nitrogen_loss4''"
  "rename_col ''nitrogen_loss5'' = ''nitrogen_loss5''"
  "rename_col ''nitrogen_loss6'' = ''nitrogen_loss6''"
  "rename_col ''nitrogen_loss7'' = ''nitrogen_loss7''"
  "rename_col ''import_crop_processing_nitrogen'' = ''import_crop_processing_nitrogen''"
  "rename_col ''export_crop_processing_nitrogen'' = ''export_crop_processing_nitrogen''"
  "rename_col ''selfloop_crop_processing_nitrogen'' = ''within_county_crop_processing_nitrogen''"
  "rename_col ''import_animal_nitrogen'' = ''import_animal_nitrogen''"
  "rename_col ''export_animal_nitrogen'' = ''export_animal_nitrogen''"
  "rename_col ''selfloop_animal_nitrogen'' = ''within_county_animal_nitrogen''"
  "rename_col ''import_meat_nitrogen'' = ''import_meat_nitrogen''"
  "rename_col ''export_meat_nitrogen'' = ''export_meat_nitrogen''"
  "rename_col ''selfloop_meat_nitrogen'' = ''within_county_meat_nitrogen''"
  by (simp_all add: rename_col_def startswith_def)

lemma add_total_crop_frame:
  "add_total crop_loss_columns (rename_columns rename_col (crop_frame l1 l2))
     = Inr (loaded_crop_frame l1 l2)"
  by (simp add: crop_frame_def rename_columns_def rename_col_sample add_total_def
      crop_loss_columns_def get_num_def get_column_def nrows_def loaded_crop_frame_def
      bindE_def numeral_2_eq_2)

lemma add_total_animal_frame:
  "add_total animal_loss_columns
       (rename_columns rename_col (animal_frame [l3, l4, l5, l6, l7]))
     = Inr (loaded_animal_frame [l3, l4, l5, l6, l7])"
  by (simp add: animal_frame_def rename_columns_def rename_col_sample add_total_def
      animal_loss_columns_def get_num_def get_column_def nrows_def loaded_animal_frame_def
      bindE_def numeral_2_eq_2)

lemma total_nitrogen_frames:
  "total_nitrogen (loaded_crop_frame l1 l2) (loaded_animal_frame [l3, l4, l5, l6, l7])
     = Inr (loaded_total_frame [l1, l2] [l3, l4, l5, l6, l7])"
  by (simp add: total_nitrogen_def loaded_crop_frame_def loaded_animal_frame_def
      loaded_total_frame_def get_num_def get_str_def get_column_def bindE_def
      animal_loss_columns_def)

lemma load_data_frames:
  "load_data ''/srv'' (sample_files (crop_frame l1 l2) (animal_frame [l3, l4, l5, l6, l7]))
       ''2017''
     = Inr (sample_summary, sample_area, sample_inventory, loaded_crop_frame l1 l2,
            loaded_animal_frame [l3, l4, l5, l6, l7],
            loaded_total_frame [l1, l2] [l3, l4, l5, l6, l7])"
  by (simp add: load_data_def data_paths_def path_join_def sample_files_def
      add_total_crop_frame add_total_animal_frame total_nitrogen_frames bindE_def)

lemma map_of_loaded_crop:
  "map_of (loaded_crop_frame l1 l2) ''FIPS'' = Some (NumCol [Some 24001, Some 24003])"
  "map_of (loaded_crop_frame l1 l2) ''county''
     = Some (StrCol [Some ''Allegany'', Some ''Anne Arundel''])"
  "map_of (loaded_crop_frame l1 l2) ''commodity''
     = Some (StrCol [Some ''corn_grain'', Some ''wheat''])"
  "map_of (loaded_crop_frame l1 l2) ''nitrogen_loss1'' = Some (NumCol l1)"
  "map_of (loaded_crop_frame l1 l2) ''nitrogen_loss2'' = Some (NumCol l2)"
  "map_of (loaded_crop_frame l1 l2) ''import_crop_processing_nitrogen''
     = Some (NumCol [Some 10, Some 20])"
  "map_of (loaded_crop_frame l1 l2) ''export_crop_processing_nitrogen''
     = Some (NumCol [Some 30, Some 0])"
  "map_of (loaded_crop_frame l1 l2) ''within_county_crop_processing_nitrogen''
     = Some (NumCol [Some 5, Some 7])"
  by (simp_all add: loaded_crop_frame_def)

lemma map_of_loaded_animal:
  "map_of (loaded_animal_frame [l3, l4, l5, l6, l7]) ''FIPS''
     = Some (NumCol [Some 24003, Some 24005])"
  "map_of (loaded_animal_frame [l3, l4, l5, l6, l7]) ''county''
     = Some (StrCol [None, Some ''Baltimore''])"
  "map_of (loaded_animal_frame [l3, l4, l5, l6, l7]) ''commodity''
     = Some (StrCol [Some ''beef'', Some ''beef''])"
  "map_of (loaded_animal_frame [l3, l4, l5, l6, l7]) ''nitrogen_loss3'' = Some (NumCol l3)"
  "map_of (loaded_animal_frame [l3, l4, l5, l6, l7]) ''nitrogen_loss4'' = Some (NumCol l4)"
  "map_of (loaded_animal_frame [l3, l4, l5, l6, l7]) ''nitrogen_loss5'' = Some (NumCol l5)"
  "map_of (loaded_animal_frame [l3, l4, l5, l6, l7]) ''nitrogen_loss6'' = Some (NumCol l6)"
  "map_of (loaded_animal_frame [l3, l4, l5, l6, l7]) ''nitrogen_loss7'' = Some (NumCol l7)"
  "map_of (loaded_animal_frame [l3, l4, l5, l6, l7]) ''import_animal_nitrogen''
     = Some (NumCol [Some 1, Some 2])"
  "map_of (loaded_animal_frame [l3, l4, l5, l6, l7]) ''export_animal_nitrogen''
     = Some (NumCol [Some 3, Some 4])"
  "map_of (loaded_animal_frame [l3, l4, l5, l6, l7]) ''within_county_animal_nitrogen''
     = Some (NumCol [Some 5, Some 6])"
  "map_of (loaded_animal_frame [l3, l4, l5, l6, l7]) ''import_meat_nitrogen''
     = Some (NumCol [Some 7, Some 8])"
  "map_of (loaded_animal_frame [l3, l4, l5, l6, l7]) ''export_meat_nitrogen''
     = Some (NumCol [Some 9, Some 10])"
  "map_of (loaded_animal_frame [l3, l4, l5, l6, l7]) ''within_county_meat_nitrogen''
     = Some (NumCol [Some 11, Some 12])"
  by (simp_all add: loaded_animal_frame_def animal_loss_columns_def)

lemma count_list_distinct: "distinct xs \<Longrightarrow> count_list xs n \<le> 1"
  by (induction xs) (auto simp: count_list_0_iff)

lemma not_duplicated:
  assumes "distinct (columns df)"
  shows "\<not> duplicated df names"
proof -
  have "\<not> 1 < count_list (columns df) n" for n
    using count_list_distinct [OF assms, of n] by simp
  then show ?thesis by (simp add: duplicated_def list_ex_iff)
qed

lemma not_duplicated_loaded_crop [simp]: "\<not> duplicated (loaded_crop_frame l1 l2) names"
  by (rule not_duplicated) (simp add: columns_def loaded_crop_frame_def)

lemma not_duplicated_loaded_animal [simp]:
  "\<not> duplicated (loaded_animal_frame [l3, l4, l5, l6, l7]) names"
  by (rule not_duplicated)
    (simp add: columns_def loaded_animal_frame_def animal_loss_columns_def)

lemma not_duplicated_loaded_total [simp]: "\<not> duplicated (loaded_total_frame cs ls) names"
  by (rule not_duplicated) (simp add: columns_def loaded_total_frame_def county_totals_def Let_def)

lemma loss_maps_frames:
  "\<exists>ms. loss_maps (loaded_crop_frame l1 l2) (loaded_animal_frame [l3, l4, l5, l6, l7])
          = Inr ms"
  by (simp add: loss_maps_def nitrogen_loss_labels_def log_map_def get_num_def
      get_column_def px_column_def map_of_loaded_crop map_of_loaded_animal)

lemma total_map_frames:
  "\<exists>m. log_map (loaded_total_frame cs ls) ''total_nitrogen_loss'' ttl = Inr m"
proof -
  have "\<exists>m. (if duplicated (loaded_total_frame cs ls) [''total_nitrogen_loss'']
             then Inl (ValueError ''total_nitrogen_loss'') else Inr ()) = Inr m"
    by simp
  then show ?thesis
    unfolding log_map_def
    by (simp add: get_num_def get_column_def px_column_def loaded_total_frame_def
      county_totals_def Let_def)
qed

lemma sections_frames:
  "\<exists>s. import_export_sections ties_up (loaded_crop_frame l1 l2)
          (loaded_animal_frame [l3, l4, l5, l6, l7]) = Inr s"
  by (simp add: import_export_sections_def stage_columns_def stage_section_def log_map_def
      stage_table_def get_num_def get_column_def px_column_def map_of_loaded_crop
      map_of_loaded_animal)

lemma inventory_sample:
  "\<exists>h. inventory_harvest_section sample_inventory sample_area = Inr h"
  by (simp add: inventory_harvest_section_def format_commodity_column_def px_pie_def
      px_column_def sample_inventory_def sample_area_def)

lemma upt_1_8: "[Suc 0..<8] = [1, 2, 3, 4, 5, 6, 7]"
  by code_simp

lemma nitrogen_loss_table_values:
  assumes "nitrogen_loss_table ties_up crop_df animal_df = Inr tbl"
  shows "\<exists>l1 l2 l3 l4 l5 l6 l7.
           select_num crop_df crop_loss_columns = Inr [l1, l2] \<and>
           select_num animal_df animal_loss_columns = Inr [l3, l4, l5, l6, l7] \<and>
           total_column tbl
             = [round2 (ties_up 1) (col_sum l1 / 10 ^ 6), round2 (ties_up 1) (col_sum l2 / 10 ^ 6),
                round2 (ties_up 2) (col_sum l3 / 10 ^ 6), round2 (ties_up 2) (col_sum l4 / 10 ^ 6),
                round2 (ties_up 2) (col_sum l5 / 10 ^ 6), round2 (ties_up 2) (col_sum l6 / 10 ^ 6),
                round2 (ties_up 2) (col_sum l7 / 10 ^ 6),
                round2 (ties_up 0) ((col_sum l1 + col_sum l2 + col_sum l3 + col_sum l4 + col_sum l5
                             + col_sum l6 + col_sum l7) / 10 ^ 6)]"
proof -
  from assms obtain cc ac where cc: "select_num crop_df crop_loss_columns = Inr cc"
    and ac: "select_num animal_df animal_loss_columns = Inr ac"
    and tbl: "tbl = zip (map (\<lambda>i. ''Nitrogen Loss Stage '' @ str_nat i) [1..<8]
                   @ [''Total Nitrogen Loss''])
             (zip (map snd nitrogen_loss_labels @ [''Total Nitrogen Loss''])
                  (category_values (ties_up 1) cc @ category_values (ties_up 2) ac
                     @ [total_nitrogen_loss (ties_up 0) cc ac]))"
    unfolding nitrogen_loss_table_def bindE_eq_Inr by blast
  from cc obtain l1 l2 where c: "cc = [l1, l2]"
    unfolding crop_loss_columns_def select_num_two by blast
  from ac obtain l3 l4 l5 l6 l7 where a: "ac = [l3, l4, l5, l6, l7]"
    unfolding animal_loss_columns_def select_num_five by blast
  have v: "total_column tbl
             = [round2 (ties_up 1) (col_sum l1 / 10 ^ 6), round2 (ties_up 1) (col_sum l2 / 10 ^ 6),
                round2 (ties_up 2) (col_sum l3 / 10 ^ 6), round2 (ties_up 2) (col_sum l4 / 10 ^ 6),
                round2 (ties_up 2) (col_sum l5 / 10 ^ 6), round2 (ties_up 2) (col_sum l6 / 10 ^ 6),
                round2 (ties_up 2) (col_sum l7 / 10 ^ 6),
                round2 (ties_up 0) ((col_sum l1 + col_sum l2 + col_sum l3 + col_sum l4 + col_sum l5
                             + col_sum l6 + col_sum l7) / 10 ^ 6)]"
    by (simp add: total_column_def tbl c a upt_1_8 nitrogen_loss_labels_def category_values_def
        sum_axis0_def total_nitrogen_loss_def add_divide_distrib add.assoc)
  from cc c have 1: "select_num crop_df crop_loss_columns = Inr [l1, l2]" by simp
  from ac a have 2: "select_num animal_df animal_loss_columns = Inr [l3, l4, l5, l6, l7]"
    by simp
  from 1 2 v show ?thesis by (intro exI conjI)
qed

lemma update_dashboard_Inr:
  assumes "update_dashboard ties_up base_dir read_csv year = Inr d"
  shows "\<exists>n a i crop animal t.
           load_data base_dir read_csv year = Inr (n, a, i, crop, animal, t) \<and>
           nitrogen_loss_table ties_up crop animal = Inr (loss_table d) \<and>
           import_export_sections ties_up crop animal = Inr (sections d) \<and>
           inventory_harvest_section i a = Inr (inventory_harvest d)"
  using assms by (auto simp: update_dashboard_def bindE_eq_Inr)

lemma run_frames:
  "\<exists>d. update_dashboard ties_up ''/srv''
          (sample_files (crop_frame l1 l2) (animal_frame [l3, l4, l5, l6, l7])) ''2017''
        = Inr d \<and>
       total_column (loss_table d)
        = category_values (ties_up 1) [l1, l2] @ category_values (ties_up 2) [l3, l4, l5, l6, l7]
          @ [total_nitrogen_loss (ties_up 0) [l1, l2] [l3, l4, l5, l6, l7]]"
proof -
  let ?c = "loaded_crop_frame l1 l2" and ?a = "loaded_animal_frame [l3, l4, l5, l6, l7]"
  obtain ms where 1: "loss_maps ?c ?a = Inr ms"
    using loss_maps_frames by blast
  obtain m where 2:
    "log_map (loaded_total_frame [l1, l2] [l3, l4, l5, l6, l7]) ''total_nitrogen_loss''
       ''Total Nitrogen Loss by County'' = Inr m"
    using total_map_frames by blast
  obtain s where 3: "import_export_sections ties_up ?c ?a = Inr s"
    using sections_frames by blast
  obtain h where 4: "inventory_harvest_section sample_inventory sample_area = Inr h"
    using inventory_sample by blast
  have 5: "nitrogen_loss_table ties_up ?c ?a
       = Inr (zip (map (\<lambda>i. ''Nitrogen Loss Stage '' @ str_nat i) [1..<8]
                   @ [''Total Nitrogen Loss''])
             (zip (map snd nitrogen_loss_labels @ [''Total Nitrogen Loss''])
                  (category_values (ties_up 1) [l1, l2]
                     @ category_values (ties_up 2) [l3, l4, l5, l6, l7]
                     @ [total_nitrogen_loss (ties_up 0) [l1, l2] [l3, l4, l5, l6, l7]])))"
    by (simp add: nitrogen_loss_table_def crop_loss_columns_def animal_loss_columns_def
        get_num_def get_column_def map_of_loaded_crop map_of_loaded_animal)
  show ?thesis
    by (simp add: update_dashboard_def load_data_frames 1 2 3 4 5 total_column_def
        nitrogen_loss_labels_def category_values_def sum_axis0_def upt_1_8)
qed


lemma table_values_frames:
  "table_values (update_dashboard ties_up ''/srv''
      (sample_files (crop_frame l1 l2) (animal_frame [l3, l4, l5, l6, l7])) ''2017'')
   = Inr (category_values (ties_up 1) [l1, l2] @ category_values (ties_up 2) [l3, l4, l5, l6, l7]
          @ [total_nitrogen_loss (ties_up 0) [l1, l2] [l3, l4, l5, l6, l7]])"
proof -
  from run_frames [of ties_up l1 l2 l3 l4 l5 l6 l7] obtain d where
    "update_dashboard ties_up ''/srv''
          (sample_files (crop_frame l1 l2) (animal_frame [l3, l4, l5, l6, l7])) ''2017''
        = Inr d"
    and "total_column (loss_table d)
        = category_values (ties_up 1) [l1, l2] @ category_values (ties_up 2) [l3, l4, l5, l6, l7]
          @ [total_nitrogen_loss (ties_up 0) [l1, l2] [l3, l4, l5, l6, l7]]"
    by blast
  then show ?thesis by (simp add: table_values_def)
qed

lemma sixes_values:
  "category_values ties_up [[Some 6000, Some 0], [Some 3000, Some 3000]] = [1 / 100, 1 / 100]"
  "category_values ties_up [[Some 6000, None], [Some 6000, None], [Some 6000, None],
                    [Some 6000, None], [Some 6000, None]]
     = [1 / 100, 1 / 100, 1 / 100, 1 / 100, 1 / 100]"
  "total_nitrogen_loss ties_up [[Some 6000, Some 0], [Some 3000, Some 3000]]
     [[Some 6000, None], [Some 6000, None], [Some 6000, None],
      [Some 6000, None], [Some 6000, None]] = 4 / 100"
  by (simp_all add: category_values_def total_nitrogen_loss_def sum_axis0_def col_sum_def
      val_def round2_def)

lemma doubled_values:
  "category_values ties_up [[Some 1000000, Some 1000000], [Some 1000000, Some 1000000]] = [2, 2]"
  "category_values ties_up [[Some 2000000, Some 2000000], [Some 2000000, Some 2000000],
                    [Some 2000000, Some 2000000], [Some 2000000, Some 2000000],
                    [Some 2000000, Some 2000000]]
     = [4, 4, 4, 4, 4]"
  "total_nitrogen_loss ties_up [[Some 1000000, Some 1000000], [Some 1000000, Some 1000000]]
     [[Some 2000000, Some 2000000], [Some 2000000, Some 2000000],
      [Some 2000000, Some 2000000], [Some 2000000, Some 2000000],
      [Some 2000000, Some 2000000]] = 24"
  by (simp_all add: category_values_def total_nitrogen_loss_def sum_axis0_def col_sum_def
      val_def round2_def)

lemma sum_list_hundredths:
  fixes xs :: "real list"
  assumes "\<forall>x \<in> set xs. \<exists>n::int. x = of_int n / 100"
  shows "\<exists>n::int. sum_list xs = of_int n / 100"
  using assms
proof (induction xs)
  case Nil
  have "sum_list ([]::real list) = of_int 0 / 100" by simp
  then show ?case by blast
next
  case (Cons x xs)
  then obtain n :: int where n: "sum_list xs = of_int n / 100" by auto
  from Cons.prems obtain m :: int where m: "x = of_int m / 100" by auto
  have "sum_list (x # xs) = of_int (m + n) / 100"
    by (simp add: n m add_divide_distrib)
  then show ?case by blast
qed

lemma select_num_loaded_crop:
  "select_num (loaded_crop_frame l1 l2) crop_loss_columns = Inr [l1, l2]"
  by (simp add: crop_loss_columns_def get_num_def get_column_def map_of_loaded_crop)

lemma select_num_loaded_animal:
  "select_num (loaded_animal_frame [l3, l4, l5, l6, l7]) animal_loss_columns
     = Inr [l3, l4, l5, l6, l7]"
  by (simp add: animal_loss_columns_def get_num_def get_column_def map_of_loaded_animal)






lemma set_present: "set (present ks) = {k. Some k \<in> set ks}"
  by (induction ks) (auto simp: present_def split: option.splits)

lemma group_keys_props:
  "sorted (group_keys ks)" "distinct (group_keys ks)"
  "set (group_keys ks) = {k. Some k \<in> set ks}"
  by (simp_all add: group_keys_def set_present)

lemma sum_filter_pairs:
  "sum_list (map val (map snd (filter (\<lambda>(k', v). k' = Some k) xs)))
     = (\<Sum>(k', v) \<leftarrow> xs. if k' = Some k then val v else 0)"
  by (induction xs) auto

lemma group_sum_eq:
  "group_sum ks vs k = (\<Sum>(k', v) \<leftarrow> zip ks vs. if k' = Some k then val v else 0)"
  unfolding group_sum_def group_vals_def by (rule sum_filter_pairs)


lemma group_vals_append:
  "length ks = length vs \<Longrightarrow>
   group_vals (ks @ ks') (vs @ vs') k = group_vals ks vs k @ group_vals ks' vs' k"
  by (simp add: group_vals_def)

lemma group_sum_append:
  "length ks = length vs \<Longrightarrow>
   group_sum (ks @ ks') (vs @ vs') k = group_sum ks vs k + group_sum ks' vs' k"
  by (simp add: group_sum_def group_vals_append)

lemma group_vals_absent: "Some k \<notin> set ks \<Longrightarrow> group_vals ks vs k = []"
  by (auto simp: group_vals_def filter_empty_conv dest: set_zip_leftD)

lemma group_sum_absent: "Some k \<notin> set ks \<Longrightarrow> group_sum ks vs k = 0"
  by (simp add: group_sum_def group_vals_absent)

lemma total_nitrogen_Inr:
  assumes "total_nitrogen crop animal = Inr t"
  shows "\<exists>cf cc ct af ac atot.
           get_num crop ''FIPS'' = Inr cf \<and> get_str crop ''county'' = Inr cc \<and>
           get_num crop ''total_nitrogen_loss'' = Inr ct \<and>
           get_num animal ''FIPS'' = Inr af \<and> get_str animal ''county'' = Inr ac \<and>
           get_num animal ''total_nitrogen_loss'' = Inr atot \<and>
           t = county_totals (cf @ af) (cc @ ac) (ct @ atot)"
  using assms unfolding total_nitrogen_def bindE_eq_Inr by blast

lemma add_total_lengths:
  assumes "add_total names df = Inr df'" and "wf_frame df" and "names \<noteq> []"
    and "get_num df' ''FIPS'' = Inr f" and "get_str df' ''county'' = Inr c"
    and "get_num df' ''total_nitrogen_loss'' = Inr t"
  shows "length f = nrows df' \<and> length c = nrows df' \<and> length t = nrows df'"
proof -
  from add_total_Inr [OF assms(1-3)] obtain cols where
    len: "\<forall>c \<in> set cols. length c = nrows df"
    and n: "nrows df' = nrows df"
    and tot: "map_of df' ''total_nitrogen_loss''
             = Some (NumCol (map Some (sum_axis1 (nrows df) cols)))"
    and oth: "\<forall>n. n \<noteq> ''total_nitrogen_loss'' \<longrightarrow> map_of df' n = map_of df n"
    by blast
  from assms(4) oth have "map_of df ''FIPS'' = Some (NumCol f)"
    by (simp add: get_num_Inr)
  from wf_frame_col_len [OF assms(2) this] have 1: "length f = nrows df" by simp
  from assms(5) oth have "map_of df ''county'' = Some (StrCol c)"
    by (simp add: get_str_Inr)
  from wf_frame_col_len [OF assms(2) this] have 2: "length c = nrows df" by simp
  from assms(6) tot have "t = map Some (sum_axis1 (nrows df) cols)"
    by (simp add: get_num_Inr)
  then have 3: "length t = nrows df" by (simp add: length_sum_axis1 len)
  from 1 2 3 n show ?thesis by simp
qed

lemma load_data_names:
  "load_data ''/srv'' (sample_files names_crop names_animal) ''2017''
     = Inr (sample_summary, sample_area, sample_inventory, names_crop_loaded,
            names_animal_loaded, names_total)"
  by code_simp

lemma first_valid_group:
  assumes "length ks = length vs"
  shows "(first_valid (group_vals ks vs k) = None \<and>
          (\<forall>i<length ks. ks ! i = Some k \<longrightarrow> vs ! i = None)) \<or>
         (\<exists>i<length ks. ks ! i = Some k \<and> vs ! i \<noteq> None \<and>
            first_valid (group_vals ks vs k) = vs ! i \<and>
            (\<forall>j<i. ks ! j = Some k \<longrightarrow> vs ! j = None))"
  using assms
proof (induction ks vs rule: list_induct2)
  case Nil
  then show ?case by (simp add: group_vals_def)
next
  case (Cons x xs y ys)
  show ?case
  proof (cases "x = Some k")
    case False
    from Cons.IH show ?thesis
    proof
      assume a: "first_valid (group_vals xs ys k) = None \<and>
          (\<forall>i<length xs. xs ! i = Some k \<longrightarrow> ys ! i = None)"
      have "\<forall>i<length (x # xs). (x # xs) ! i = Some k \<longrightarrow> (y # ys) ! i = None"
        using a False by (auto simp: nth_Cons')
      with a False show ?thesis by (simp add: group_vals_def)
    next
      assume "\<exists>i<length xs. xs ! i = Some k \<and> ys ! i \<noteq> None \<and>
            first_valid (group_vals xs ys k) = ys ! i \<and>
            (\<forall>j<i. xs ! j = Some k \<longrightarrow> ys ! j = None)"
      then obtain i where i: "i < length xs" "xs ! i = Some k" "ys ! i \<noteq> None"
        "first_valid (group_vals xs ys k) = ys ! i"
        "\<forall>j<i. xs ! j = Some k \<longrightarrow> ys ! j = None" by blast
      have "\<forall>j<Suc i. (x # xs) ! j = Some k \<longrightarrow> (y # ys) ! j = None"
        using i(5) False by (auto simp: nth_Cons')
      moreover have "first_valid (group_vals (x # xs) (y # ys) k) = (y # ys) ! Suc i"
        using i(4) False by (simp add: group_vals_def)
      moreover have "Suc i < length (x # xs)" "(x # xs) ! Suc i = Some k"
        "(y # ys) ! Suc i \<noteq> None" using i by simp_all
      ultimately show ?thesis by blast
    qed
  next
    case True
    show ?thesis
    proof (cases y)
      case (Some v)
      have "0 < length (x # xs)" "(x # xs) ! 0 = Some k" "(y # ys) ! 0 \<noteq> None"
        "first_valid (group_vals (x # xs) (y # ys) k) = (y # ys) ! 0"
        "\<forall>j<0. (x # xs) ! j = Some k \<longrightarrow> (y # ys) ! j = None"
        using True Some by (simp_all add: group_vals_def)
      then show ?thesis by blast
    next
      case None
      from Cons.IH show ?thesis
      proof
        assume a: "first_valid (group_vals xs ys k) = None \<and>
          (\<forall>i<length xs. xs ! i = Some k \<longrightarrow> ys ! i = None)"
        have "\<forall>i<length (x # xs). (x # xs) ! i = Some k \<longrightarrow> (y # ys) ! i = None"
          using a None by (auto simp: nth_Cons')
        with a True None show ?thesis by (simp add: group_vals_def)
      next
        assume "\<exists>i<length xs. xs ! i = Some k \<and> ys ! i \<noteq> None \<and>
            first_valid (group_vals xs ys k) = ys ! i \<and>
            (\<forall>j<i. xs ! j = Some k \<longrightarrow> ys ! j = None)"
        then obtain i where i: "i < length xs" "xs ! i = Some k" "ys ! i \<noteq> None"
          "first_valid (group_vals xs ys k) = ys ! i"
          "\<forall>j<i. xs ! j = Some k \<longrightarrow> ys ! j = None" by blast
        have "\<forall>j<Suc i. (x # xs) ! j = Some k \<longrightarrow> (y # ys) ! j = None"
          using i(5) None by (auto simp: nth_Cons')
        moreover have "first_valid (group_vals (x # xs) (y # ys) k) = (y # ys) ! Suc i"
          using i(4) True None by (simp add: group_vals_def)
        moreover have "Suc i < length (x # xs)" "(x # xs) ! Suc i = Some k"
          "(y # ys) ! Suc i \<noteq> None" using i by simp_all
        ultimately show ?thesis by blast
      qed
    qed
  qed
qed


lemma wf_names_crop: "wf_frame names_crop"
  by (simp add: wf_frame_def nrows_def names_crop_def)

lemma wf_names_animal: "wf_frame names_animal"
  by (simp add: wf_frame_def nrows_def names_animal_def)

lemma sequenceE_Inr:
  "sequenceE ms = Inr xs \<Longrightarrow> length xs = length ms \<and> (\<forall>i<length ms. ms ! i = Inr (xs ! i))"
proof (induction ms arbitrary: xs)
  case Nil
  then show ?case by simp
next
  case (Cons m ms)
  from Cons.prems obtain x xs' where m: "m = Inr x" and s: "sequenceE ms = Inr xs'"
    and xs: "xs = x # xs'"
    by (auto simp: bindE_eq_Inr)
  from Cons.IH [OF s] have "length xs' = length ms" "\<forall>i<length ms. ms ! i = Inr (xs' ! i)"
    by simp_all
  then show ?case by (auto simp: m xs nth_Cons')
qed

lemma log_map_Inr:
  assumes "log_map df col ttl = Inr m"
  shows "get_num df col = Inr (hover_data m)" and "color m = map log1p (hover_data m)"
  using assms by (auto simp: log_map_def bindE_eq_Inr split: if_splits)

lemma loss_maps_Inr:
  assumes "loss_maps crop_df animal_df = Inr ms"
  shows "length ms = 7"
    and "\<forall>j<7. get_num (if j < 2 then crop_df else animal_df) (fst (nitrogen_loss_labels ! j))
                  = Inr (hover_data (ms ! j)) \<and>
                color (ms ! j) = map log1p (hover_data (ms ! j))"
proof -
  have l: "length nitrogen_loss_labels = 7" by (simp add: nitrogen_loss_labels_def)
  from sequenceE_Inr [OF assms [unfolded loss_maps_def]]
  have len: "length ms = 7"
    and nth: "\<forall>i<7. map (\<lambda>(i, (col, label)).
                  log_map (if i < 2 then crop_df else animal_df) col
                    (''Nitrogen Loss Stage '' @ str_nat (i + 1) @ '': '' @ label))
                (enumerate 0 nitrogen_loss_labels) ! i = Inr (ms ! i)"
    by (simp_all add: l)
  show "length ms = 7" by (rule len)
  show "\<forall>j<7. get_num (if j < 2 then crop_df else animal_df) (fst (nitrogen_loss_labels ! j))
                  = Inr (hover_data (ms ! j)) \<and>
                color (ms ! j) = map log1p (hover_data (ms ! j))"
  proof (intro allI impI)
    fix j :: nat assume j: "j < 7"
    with nth have "map (\<lambda>(i, (col, label)).
                  log_map (if i < 2 then crop_df else animal_df) col
                    (''Nitrogen Loss Stage '' @ str_nat (i + 1) @ '': '' @ label))
                (enumerate 0 nitrogen_loss_labels) ! j = Inr (ms ! j)" by blast
    with j l have "log_map (if j < 2 then crop_df else animal_df) (fst (nitrogen_loss_labels ! j))
              (''Nitrogen Loss Stage '' @ str_nat (j + 1) @ '': '' @ snd (nitrogen_loss_labels ! j))
            = Inr (ms ! j)"
      by (simp add: nth_enumerate_eq case_prod_beta)
    from log_map_Inr [OF this]
    show "get_num (if j < 2 then crop_df else animal_df) (fst (nitrogen_loss_labels ! j))
                  = Inr (hover_data (ms ! j)) \<and>
                color (ms ! j) = map log1p (hover_data (ms ! j))" by simp
  qed
qed

lemma stage_section_Inr:
  assumes "stage_section ties_up stage_df cols = Inr sec"
  shows "length (fst sec) = length cols"
    and "\<forall>j<length cols. get_num stage_df (cols ! j) = Inr (hover_data (fst sec ! j)) \<and>
            color (fst sec ! j) = map log1p (hover_data (fst sec ! j))"
    and "stage_table ties_up stage_df cols = Inr (snd sec)"
proof -
  from assms obtain sm tb where
    sm: "sequenceE (map (\<lambda>col. log_map stage_df col (title (str_replace col ''_'' '' ''))) cols)
           = Inr sm"
    and tb: "stage_table ties_up stage_df cols = Inr tb" and sec: "sec = (sm, tb)"
    unfolding stage_section_def bindE_eq_Inr by blast
  from sequenceE_Inr [OF sm] have len: "length sm = length cols"
    and nth: "\<forall>i<length cols. log_map stage_df (cols ! i) (title (str_replace (cols ! i) ''_'' '' ''))
                = Inr (sm ! i)"
    by simp_all
  show "length (fst sec) = length cols" by (simp add: sec len)
  show "stage_table ties_up stage_df cols = Inr (snd sec)" by (simp add: sec tb)
  show "\<forall>j<length cols. get_num stage_df (cols ! j) = Inr (hover_data (fst sec ! j)) \<and>
            color (fst sec ! j) = map log1p (hover_data (fst sec ! j))"
    using nth log_map_Inr by (auto simp: sec)
qed

lemma import_export_sections_Inr:
  assumes "import_export_sections ties_up crop_df animal_df = Inr secs"
  shows "length secs = 3"
    and "\<forall>s<3. stage_section (ties_up (3 + s)) ([crop_df, animal_df, animal_df] ! s)
                  (stage_columns ! s) = Inr (secs ! s)"
proof -
  have l: "length stage_columns = 3" by (simp add: stage_columns_def)
  from sequenceE_Inr [OF assms [unfolded import_export_sections_def]]
  have len: "length secs = 3"
    and nth: "\<forall>i<3. map (\<lambda>(idx, stage_df, cols). stage_section (ties_up (3 + idx)) stage_df cols)
                 (enumerate 0 (zip [crop_df, animal_df, animal_df] stage_columns)) ! i
               = Inr (secs ! i)"
    by (simp_all add: l)
  show "length secs = 3" by (rule len)
  show "\<forall>s<3. stage_section (ties_up (3 + s)) ([crop_df, animal_df, animal_df] ! s)
                  (stage_columns ! s) = Inr (secs ! s)"
  proof (intro allI impI)
    fix s :: nat assume s: "s < 3"
    with nth have "map (\<lambda>(idx, stage_df, cols). stage_section (ties_up (3 + idx)) stage_df cols)
                 (enumerate 0 (zip [crop_df, animal_df, animal_df] stage_columns)) ! s
               = Inr (secs ! s)"
      by blast
    with s l show "stage_section (ties_up (3 + s)) ([crop_df, animal_df, animal_df] ! s)
                  (stage_columns ! s) = Inr (secs ! s)"
      by (simp add: nth_enumerate_eq)
  qed
qed

lemma update_dashboard_maps:
  assumes "update_dashboard ties_up base_dir read_csv year = Inr d"
  shows "\<exists>n a i crop animal t ms m.
           load_data base_dir read_csv year = Inr (n, a, i, crop, animal, t) \<and>
           loss_maps crop animal = Inr ms \<and>
           log_map t ''total_nitrogen_loss'' ''Total Nitrogen Loss by County'' = Inr m \<and>
           maps d = ms @ [m] \<and>
           import_export_sections ties_up crop animal = Inr (sections d)"
  using assms by (auto simp: update_dashboard_def bindE_eq_Inr)


lemma stage_columns_lengths: "length stage_columns = 3" "\<forall>s<3. length (stage_columns ! s) = 3"
  by (auto simp: stage_columns_def less_Suc_eq numeral_3_eq_3)

lemma log1p_cells:
  assumes "color m = map log1p (hover_data m)"
  shows "\<forall>r<length (hover_data m).
           (hover_data m ! r = Some 0 \<longrightarrow> color m ! r = LogNum 0) \<and>
           (\<forall>x. 0 < x \<and> hover_data m ! r = Some x \<longrightarrow> color m ! r = LogNum (ln (1 + x))) \<and>
           (\<forall>r'<length (hover_data m). \<forall>x y.
              hover_data m ! r = Some x \<and> hover_data m ! r' = Some y \<and> 0 \<le> x \<and> x < y \<longrightarrow>
              (\<exists>a b. color m ! r = LogNum a \<and> color m ! r' = LogNum b \<and> a < b))"
  by (auto simp: assms log1p_def)

section \<open>Properties of the column rename\<close>

text \<open>
  C4, evaluated on a header that starts with the prefix and holds it once more: the
  guard looks at the start of the name only, but \<^verbatim>\<open>replace\<close> then rewrites every
  occurrence, so the later one is not left untouched.
\<close>

theorem rename_col_rewrites_later_occurrence:
  "rename_col ''selfloop_a_selfloop'' = ''within_county_a_within_county'' \<and>
   rename_col ''selfloop_a_selfloop'' \<noteq> ''within_county_a_selfloop''"
  by (simp add: rename_col_def startswith_def)

section \<open>The per-row total loss\<close>

text \<open>
  C5. When the loader succeeds on files whose columns have one length each, the column
  total_nitrogen_loss of the crop-stage table holds, in every row, the sum of that
  row's nitrogen_loss1 and nitrogen_loss2, and the one of the animal-stage table the
  sum of nitrogen_loss3 to nitrogen_loss7; \<open>val\<close> reads a missing cell as 0, so a
  missing value never removes the row's total, and a zero adds nothing.
\<close>

theorem total_loss_is_row_sum:
  assumes "load_data base_dir read_csv year
             = Inr (nitrogen_df, area_df, inventory_df, crop_df, animal_df, total_df)"
    and "wf_files read_csv"
  shows "(\<exists>l1 l2 t.
            get_num crop_df ''nitrogen_loss1'' = Inr l1 \<and>
            get_num crop_df ''nitrogen_loss2'' = Inr l2 \<and>
            get_num crop_df ''total_nitrogen_loss'' = Inr t \<and>
            length l1 = nrows crop_df \<and> length l2 = nrows crop_df \<and>
            length t = nrows crop_df \<and>
            (\<forall>r < nrows crop_df. t ! r = Some (val (l1 ! r) + val (l2 ! r)))) \<and>
         (\<exists>l3 l4 l5 l6 l7 t.
            get_num animal_df ''nitrogen_loss3'' = Inr l3 \<and>
            get_num animal_df ''nitrogen_loss4'' = Inr l4 \<and>
            get_num animal_df ''nitrogen_loss5'' = Inr l5 \<and>
            get_num animal_df ''nitrogen_loss6'' = Inr l6 \<and>
            get_num animal_df ''nitrogen_loss7'' = Inr l7 \<and>
            get_num animal_df ''total_nitrogen_loss'' = Inr t \<and>
            length l3 = nrows animal_df \<and> length l4 = nrows animal_df \<and>
            length l5 = nrows animal_df \<and> length l6 = nrows animal_df \<and>
            length l7 = nrows animal_df \<and> length t = nrows animal_df \<and>
            (\<forall>r < nrows animal_df.
               t ! r = Some (val (l3 ! r) + val (l4 ! r) + val (l5 ! r) + val (l6 ! r)
                             + val (l7 ! r)))) \<and>
         val None = 0 \<and> val (Some 0) = 0"
proof -
  from load_data_Inr [OF assms(1)] obtain path crop0 animal0 where
    rc: "read_csv (path_join path ''crop_processing_nitrogen.csv'') = Inr crop0"
    and ra: "read_csv (path_join path ''animal_stage_nitrogen.csv'') = Inr animal0"
    and ac: "add_total crop_loss_columns (rename_columns rename_col crop0) = Inr crop_df"
    and aa: "add_total animal_loss_columns (rename_columns rename_col animal0) = Inr animal_df"
    by blast
  let ?c = "rename_columns rename_col crop0" and ?a = "rename_columns rename_col animal0"
  have wc: "wf_frame ?c" and wa: "wf_frame ?a"
    using assms(2) rc ra by (simp_all add: wf_files_def)
  from add_total_Inr [OF ac wc] obtain cc where
    c1: "select_num ?c crop_loss_columns = Inr cc"
    and c2: "\<forall>c \<in> set cc. length c = nrows ?c"
    and c3: "nrows crop_df = nrows ?c"
    and c4: "map_of crop_df ''total_nitrogen_loss''
               = Some (NumCol (map Some (sum_axis1 (nrows ?c) cc)))"
    and c5: "\<forall>n. n \<noteq> ''total_nitrogen_loss'' \<longrightarrow> map_of crop_df n = map_of ?c n"
    by (auto simp: crop_loss_columns_def)
  from c1 obtain l1 l2 where cc: "cc = [l1, l2]"
    and g1: "get_num ?c ''nitrogen_loss1'' = Inr l1"
    and g2: "get_num ?c ''nitrogen_loss2'' = Inr l2"
    unfolding crop_loss_columns_def select_num_two by blast
  have crop: "\<exists>l1 l2 t.
            get_num crop_df ''nitrogen_loss1'' = Inr l1 \<and>
            get_num crop_df ''nitrogen_loss2'' = Inr l2 \<and>
            get_num crop_df ''total_nitrogen_loss'' = Inr t \<and>
            length l1 = nrows crop_df \<and> length l2 = nrows crop_df \<and>
            length t = nrows crop_df \<and>
            (\<forall>r < nrows crop_df. t ! r = Some (val (l1 ! r) + val (l2 ! r)))"
    using g1 g2 c2 c3 c4 c5
    by (simp add: get_num_Inr cc length_sum_axis1 nth_sum_axis1)
  from add_total_Inr [OF aa wa] obtain ac where
    a1: "select_num ?a animal_loss_columns = Inr ac"
    and a2: "\<forall>c \<in> set ac. length c = nrows ?a"
    and a3: "nrows animal_df = nrows ?a"
    and a4: "map_of animal_df ''total_nitrogen_loss''
               = Some (NumCol (map Some (sum_axis1 (nrows ?a) ac)))"
    and a5: "\<forall>n. n \<noteq> ''total_nitrogen_loss'' \<longrightarrow> map_of animal_df n = map_of ?a n"
    by (auto simp: animal_loss_columns_def)
  from a1 obtain l3 l4 l5 l6 l7 where ac: "ac = [l3, l4, l5, l6, l7]"
    and h3: "get_num ?a ''nitrogen_loss3'' = Inr l3"
    and h4: "get_num ?a ''nitrogen_loss4'' = Inr l4"
    and h5: "get_num ?a ''nitrogen_loss5'' = Inr l5"
    and h6: "get_num ?a ''nitrogen_loss6'' = Inr l6"
    and h7: "get_num ?a ''nitrogen_loss7'' = Inr l7"
    unfolding animal_loss_columns_def select_num_five by blast
  have animal: "\<exists>l3 l4 l5 l6 l7 t.
            get_num animal_df ''nitrogen_loss3'' = Inr l3 \<and>
            get_num animal_df ''nitrogen_loss4'' = Inr l4 \<and>
            get_num animal_df ''nitrogen_loss5'' = Inr l5 \<and>
            get_num animal_df ''nitrogen_loss6'' = Inr l6 \<and>
            get_num animal_df ''nitrogen_loss7'' = Inr l7 \<and>
            get_num animal_df ''total_nitrogen_loss'' = Inr t \<and>
            length l3 = nrows animal_df \<and> length l4 = nrows animal_df \<and>
            length l5 = nrows animal_df \<and> length l6 = nrows animal_df \<and>
            length l7 = nrows animal_df \<and> length t = nrows animal_df \<and>
            (\<forall>r < nrows animal_df.
               t ! r = Some (val (l3 ! r) + val (l4 ! r) + val (l5 ! r) + val (l6 ! r)
                             + val (l7 ! r)))"
    using h3 h4 h5 h6 h7 a2 a3 a4 a5
    by (simp add: get_num_Inr ac length_sum_axis1 nth_sum_axis1)
  show ?thesis
    using crop animal by (simp add: val_def)
qed

theorem total_loss_is_row_sum_witness:
  "load_data ''/srv'' (sample_files sample_crop sample_animal) ''2017''
     = Inr (sample_summary, sample_area, sample_inventory, loaded_crop, loaded_animal,
            loaded_total) \<and>
   wf_files (sample_files sample_crop sample_animal) \<and>
   (\<exists>l1 l2 t.
      get_num loaded_crop ''nitrogen_loss1'' = Inr l1 \<and>
      get_num loaded_crop ''nitrogen_loss2'' = Inr l2 \<and>
      get_num loaded_crop ''total_nitrogen_loss'' = Inr t \<and>
      length t = nrows loaded_crop \<and>
      (\<forall>r < nrows loaded_crop. t ! r = Some (val (l1 ! r) + val (l2 ! r)))) \<and>
   get_num loaded_crop ''nitrogen_loss2'' = Inr [Some 1000000, None] \<and>
   get_num loaded_crop ''total_nitrogen_loss'' = Inr [Some 1500000, Some 500000]"
proof -
  note h = wf_sample_files [OF wf_sample_crop wf_sample_animal]
  have "get_num loaded_crop ''nitrogen_loss2'' = Inr [Some 1000000, None]"
    and "get_num loaded_crop ''total_nitrogen_loss'' = Inr [Some 1500000, Some 500000]"
    by (simp_all add: get_num_def get_column_def loaded_crop_def)
  then show ?thesis
    using load_data_sample h total_loss_is_row_sum [OF load_data_sample h] by blast
qed

section \<open>The log scale of the maps\<close>

text \<open>
  C8. A run of the callback that succeeds draws eight maps of the loss columns (the
  first two from the crop table, the next five from the animal table, the last from
  the county totals) and three maps in each of the three stage sections. In every one
  of them the measure column is the column of the loaded table, and the colour is
  \<open>log1p\<close> of the measure, cell by cell: a measure of 0 is coloured 0, a positive
  measure \<open>x\<close> is coloured \<open>ln (1 + x)\<close>, and of two measures that are not negative
  the larger has the strictly larger colour. The same holds of \<open>log1p\<close> on all reals
  that are not negative.
\<close>

theorem maps_are_log_scaled:
  assumes "update_dashboard ties_up base_dir read_csv year = Inr d"
  shows "\<exists>n a i crop_df animal_df t.
     load_data base_dir read_csv year = Inr (n, a, i, crop_df, animal_df, t) \<and>
     length (maps d) = 8 \<and>
     (\<forall>j<7. get_num (if j < 2 then crop_df else animal_df) (fst (nitrogen_loss_labels ! j))
               = Inr (hover_data (maps d ! j))) \<and>
     get_num t ''total_nitrogen_loss'' = Inr (hover_data (maps d ! 7)) \<and>
     length (sections d) = 3 \<and>
     (\<forall>s<3. length (fst (sections d ! s)) = 3 \<and>
        (\<forall>j<3. get_num ([crop_df, animal_df, animal_df] ! s) (stage_columns ! s ! j)
                  = Inr (hover_data (fst (sections d ! s) ! j)))) \<and>
     (\<forall>m \<in> set (maps d) \<union> (\<Union>sec \<in> set (sections d). set (fst sec)).
        color m = map log1p (hover_data m) \<and>
        (\<forall>r<length (hover_data m).
           (hover_data m ! r = Some 0 \<longrightarrow> color m ! r = LogNum 0) \<and>
           (\<forall>x. 0 < x \<and> hover_data m ! r = Some x \<longrightarrow> color m ! r = LogNum (ln (1 + x))) \<and>
           (\<forall>r'<length (hover_data m). \<forall>x y.
              hover_data m ! r = Some x \<and> hover_data m ! r' = Some y \<and> 0 \<le> x \<and> x < y \<longrightarrow>
              (\<exists>a b. color m ! r = LogNum a \<and> color m ! r' = LogNum b \<and> a < b)))) \<and>
     log1p (Some 0) = LogNum 0 \<and>
     (\<forall>x. 0 < x \<longrightarrow> log1p (Some x) = LogNum (ln (1 + x))) \<and>
     (\<forall>x y. 0 \<le> x \<and> x < y \<longrightarrow>
        (\<exists>a b. log1p (Some x) = LogNum a \<and> log1p (Some y) = LogNum b \<and> a < b))"
proof -
  from update_dashboard_maps [OF assms] obtain n a i crop_df animal_df t ms m where
    ld: "load_data base_dir read_csv year = Inr (n, a, i, crop_df, animal_df, t)"
    and lm: "loss_maps crop_df animal_df = Inr ms"
    and tm: "log_map t ''total_nitrogen_loss'' ''Total Nitrogen Loss by County'' = Inr m"
    and md: "maps d = ms @ [m]"
    and se: "import_export_sections ties_up crop_df animal_df = Inr (sections d)"
    by blast
  note L = loss_maps_Inr [OF lm]
  note T = log_map_Inr [OF tm]
  note S = import_export_sections_Inr [OF se]
  have 1: "length (maps d) = 8" by (simp add: md L(1))
  have 2: "\<forall>j<7. get_num (if j < 2 then crop_df else animal_df) (fst (nitrogen_loss_labels ! j))
               = Inr (hover_data (maps d ! j))"
    using L by (simp add: md nth_append)
  have 3: "get_num t ''total_nitrogen_loss'' = Inr (hover_data (maps d ! 7))"
    using T(1) by (simp add: md nth_append L(1))
  have 4: "length (sections d) = 3" by (rule S(1))
  have sec: "length (fst (sections d ! s)) = 3 \<and>
        (\<forall>j<3. get_num ([crop_df, animal_df, animal_df] ! s) (stage_columns ! s ! j)
                  = Inr (hover_data (fst (sections d ! s) ! j)) \<and>
               color (fst (sections d ! s) ! j) = map log1p (hover_data (fst (sections d ! s) ! j)))"
    if s: "s < 3" for s
  proof -
    from S(2) s have "stage_section (ties_up (3 + s)) ([crop_df, animal_df, animal_df] ! s)
        (stage_columns ! s) = Inr (sections d ! s)" by blast
    from stage_section_Inr(1,2) [OF this] stage_columns_lengths(2) s show ?thesis by simp
  qed
  have 5: "\<forall>s<3. length (fst (sections d ! s)) = 3 \<and>
        (\<forall>j<3. get_num ([crop_df, animal_df, animal_df] ! s) (stage_columns ! s ! j)
                  = Inr (hover_data (fst (sections d ! s) ! j)))"
    using sec by blast
  have c: "color m' = map log1p (hover_data m')"
    if "m' \<in> set (maps d) \<union> (\<Union>sec \<in> set (sections d). set (fst sec))" for m'
    using that
  proof
    assume "m' \<in> set (maps d)"
    then have "m' \<in> set ms \<or> m' = m" by (auto simp: md)
    then show ?thesis
    proof
      assume "m' \<in> set ms"
      then obtain j where "j < 7" "m' = ms ! j" by (auto simp: in_set_conv_nth L(1))
      with L(2) show ?thesis by blast
    next
      assume "m' = m" with T(2) show ?thesis by simp
    qed
  next
    assume "m' \<in> (\<Union>sec \<in> set (sections d). set (fst sec))"
    then obtain sc where sc: "sc \<in> set (sections d)" and m': "m' \<in> set (fst sc)" by blast
    from sc have "\<exists>s<length (sections d). sections d ! s = sc"
      by (simp only: in_set_conv_nth)
    then obtain s where s: "s < 3" and ss: "sections d ! s = sc"
      unfolding 4 by blast
    from sec [OF s] have l: "length (fst sc) = 3"
      and cs: "\<forall>j<3. color (fst sc ! j) = map log1p (hover_data (fst sc ! j))"
      unfolding ss by blast+
    from m' have "\<exists>j<length (fst sc). fst sc ! j = m'"
      by (simp only: in_set_conv_nth)
    then obtain j where "j < 3" "fst sc ! j = m'"
      unfolding l by blast
    with cs show ?thesis by blast
  qed
  have 6: "\<forall>m \<in> set (maps d) \<union> (\<Union>sec \<in> set (sections d). set (fst sec)).
        color m = map log1p (hover_data m) \<and>
        (\<forall>r<length (hover_data m).
           (hover_data m ! r = Some 0 \<longrightarrow> color m ! r = LogNum 0) \<and>
           (\<forall>x. 0 < x \<and> hover_data m ! r = Some x \<longrightarrow> color m ! r = LogNum (ln (1 + x))) \<and>
           (\<forall>r'<length (hover_data m). \<forall>x y.
              hover_data m ! r = Some x \<and> hover_data m ! r' = Some y \<and> 0 \<le> x \<and> x < y \<longrightarrow>
              (\<exists>a b. color m ! r = LogNum a \<and> color m ! r' = LogNum b \<and> a < b)))"
  proof (intro ballI conjI)
    fix m' assume m': "m' \<in> set (maps d) \<union> (\<Union>sec \<in> set (sections d). set (fst sec))"
    show "color m' = map log1p (hover_data m')" by (rule c [OF m'])
    show "\<forall>r<length (hover_data m').
           (hover_data m' ! r = Some 0 \<longrightarrow> color m' ! r = LogNum 0) \<and>
           (\<forall>x. 0 < x \<and> hover_data m' ! r = Some x \<longrightarrow> color m' ! r = LogNum (ln (1 + x))) \<and>
           (\<forall>r'<length (hover_data m'). \<forall>x y.
              hover_data m' ! r = Some x \<and> hover_data m' ! r' = Some y \<and> 0 \<le> x \<and> x < y \<longrightarrow>
              (\<exists>a b. color m' ! r = LogNum a \<and> color m' ! r' = LogNum b \<and> a < b))"
      by (rule log1p_cells [OF c [OF m']])
  qed
  have 7: "log1p (Some 0) = LogNum 0"
    and 8: "\<forall>x. 0 < x \<longrightarrow> log1p (Some x) = LogNum (ln (1 + x))"
    and 9: "\<forall>x y. 0 \<le> x \<and> x < y \<longrightarrow>
        (\<exists>a b. log1p (Some x) = LogNum a \<and> log1p (Some y) = LogNum b \<and> a < b)"
    by (auto simp: log1p_def)
  from ld 1 2 3 4 5 6 7 8 9 show ?thesis by (intro exI conjI)
qed


theorem maps_are_log_scaled_witness:
  "\<exists>d. update_dashboard ties_to_even ''/srv'' (sample_files sample_crop sample_animal) ''2017''
          = Inr d \<and>
       length (maps d) = 8 \<and> length (sections d) = 3 \<and>
       hover_data (maps d ! 2) = [Some 2000000, Some 0] \<and>
       color (maps d ! 2) ! 0 = LogNum (ln (1 + 2000000)) \<and>
       color (maps d ! 2) ! 1 = LogNum 0 \<and>
       (\<exists>a b. color (maps d ! 2) ! 1 = LogNum a \<and> color (maps d ! 2) ! 0 = LogNum b \<and> a < b) \<and>
       hover_data (maps d ! 7) = [Some 1500000, Some 7000000, Some 3500000] \<and>
       color (maps d ! 7) ! 1 = LogNum (ln (1 + 7000000)) \<and>
       hover_data (fst (sections d ! 0) ! 0) = [Some 10, Some 20] \<and>
       color (fst (sections d ! 0) ! 0) ! 1 = LogNum (ln (1 + 20))"
proof -
  from run_frames [of ties_to_even "[Some 500000, Some 500000]" "[Some 1000000, None]"
      "[Some 2000000, Some 0]" "[Some 1000000, Some 1000000]" "[None, Some 2000000]"
      "[Some 1500000, Some 500000]" "[Some 2000000, Some 0]"]
  obtain d where
    u: "update_dashboard ties_to_even ''/srv'' (sample_files sample_crop sample_animal) ''2017''
          = Inr d"
    unfolding sample_crop_def sample_animal_def by (elim exE conjE)
  let ?M = "set (maps d) \<union> (\<Union>sec \<in> set (sections d). set (fst sec))"
  from maps_are_log_scaled [OF u] obtain n a i crop_df animal_df t where
    ld: "load_data ''/srv'' (sample_files sample_crop sample_animal) ''2017''
           = Inr (n, a, i, crop_df, animal_df, t)"
    and l8: "length (maps d) = 8"
    and lm: "\<forall>j<7. get_num (if j < 2 then crop_df else animal_df)
                     (fst (nitrogen_loss_labels ! j)) = Inr (hover_data (maps d ! j))"
    and tm: "get_num t ''total_nitrogen_loss'' = Inr (hover_data (maps d ! 7))"
    and l3: "length (sections d) = 3"
    and sm: "\<forall>s<3. length (fst (sections d ! s)) = 3 \<and>
        (\<forall>j<3. get_num ([crop_df, animal_df, animal_df] ! s) (stage_columns ! s ! j)
                  = Inr (hover_data (fst (sections d ! s) ! j)))"
    and cells: "\<forall>m \<in> ?M.
        color m = map log1p (hover_data m) \<and>
        (\<forall>r<length (hover_data m).
           (hover_data m ! r = Some 0 \<longrightarrow> color m ! r = LogNum 0) \<and>
           (\<forall>x. 0 < x \<and> hover_data m ! r = Some x \<longrightarrow> color m ! r = LogNum (ln (1 + x))) \<and>
           (\<forall>r'<length (hover_data m). \<forall>x y.
              hover_data m ! r = Some x \<and> hover_data m ! r' = Some y \<and> 0 \<le> x \<and> x < y \<longrightarrow>
              (\<exists>a b. color m ! r = LogNum a \<and> color m ! r' = LogNum b \<and> a < b)))"
    by blast
  from ld have fr: "crop_df = loaded_crop" "animal_df = loaded_animal" "t = loaded_total"
    by (simp_all add: load_data_sample)
  from lm have "(2::nat) < 7 \<longrightarrow> get_num (if (2::nat) < 2 then crop_df else animal_df)
                     (fst (nitrogen_loss_labels ! 2)) = Inr (hover_data (maps d ! 2))"
    by blast
  then have h2: "hover_data (maps d ! 2) = [Some 2000000, Some 0]"
    by (simp add: fr nitrogen_loss_labels_def get_num_def get_column_def loaded_animal_def)
  from tm have h7: "hover_data (maps d ! 7) = [Some 1500000, Some 7000000, Some 3500000]"
    by (simp add: fr get_num_def get_column_def loaded_total_def)
  from sm have "(0::nat) < 3 \<longrightarrow> length (fst (sections d ! 0)) = 3 \<and>
        (\<forall>j<3. get_num ([crop_df, animal_df, animal_df] ! 0) (stage_columns ! 0 ! j)
                  = Inr (hover_data (fst (sections d ! 0) ! j)))"
    by blast
  then have s3: "length (fst (sections d ! 0)) = 3"
    and "(0::nat) < 3 \<longrightarrow> get_num ([crop_df, animal_df, animal_df] ! 0) (stage_columns ! 0 ! 0)
                  = Inr (hover_data (fst (sections d ! 0) ! 0))"
    by simp_all
  then have hs: "hover_data (fst (sections d ! 0) ! 0) = [Some 10, Some 20]"
    by (simp add: fr stage_columns_def get_num_def get_column_def loaded_crop_def)
  have m2: "maps d ! 2 \<in> ?M" and m7: "maps d ! 7 \<in> ?M"
    using l8 by simp_all
  have "sections d ! 0 \<in> set (sections d)" using l3 by simp
  moreover have "fst (sections d ! 0) ! 0 \<in> set (fst (sections d ! 0))" using s3 by simp
  ultimately have ms: "fst (sections d ! 0) ! 0 \<in> ?M" by blast
  note c2 = cells [rule_format, OF m2, unfolded h2]
  note c7 = cells [rule_format, OF m7, unfolded h7]
  note cs = cells [rule_format, OF ms, unfolded hs]
  have 1: "color (maps d ! 2) ! 0 = LogNum (ln (1 + 2000000))"
    using c2 [THEN conjunct2, rule_format, of 0, THEN conjunct2, THEN conjunct1, rule_format,
        of 2000000] by simp
  have 2: "color (maps d ! 2) ! 1 = LogNum 0"
    using c2 [THEN conjunct2, rule_format, of 1, THEN conjunct1] by simp
  have 3: "\<exists>a b. color (maps d ! 2) ! 1 = LogNum a \<and> color (maps d ! 2) ! 0 = LogNum b \<and> a < b"
    using c2 [THEN conjunct2, rule_format, of 1, THEN conjunct2, THEN conjunct2, rule_format,
        of 0 0 2000000] by simp
  have 4: "color (maps d ! 7) ! 1 = LogNum (ln (1 + 7000000))"
    using c7 [THEN conjunct2, rule_format, of 1, THEN conjunct2, THEN conjunct1, rule_format,
        of 7000000] by simp
  have 5: "color (fst (sections d ! 0) ! 0) ! 1 = LogNum (ln (1 + 20))"
    using cs [THEN conjunct2, rule_format, of 1, THEN conjunct2, THEN conjunct1, rule_format,
        of 20] by simp
  from u l8 l3 h2 1 2 3 h7 4 hs 5 show ?thesis by (intro exI [of _ d] conjI)
qed

section \<open>Failures of the callback\<close>

text \<open>
  C9 as stated fails: the script has no exception DatasetNotFoundError. A year that is
  not a key of \<^verbatim>\<open>data_paths\<close> ends the callback with the KeyError of the
  dictionary lookup.
\<close>

theorem unknown_year_counterexample:
  "update_dashboard ties_to_even ''/srv'' no_files ''1999'' = Inl (KeyError ''1999'') \<and>
   exception_class (KeyError ''1999'') \<noteq> ''DatasetNotFoundError''"
  by (simp add: update_dashboard_def load_data_def data_paths_def)

text \<open>
  C9 as amended. A year outside the three keys of \<^verbatim>\<open>data_paths\<close> ends the callback
  with KeyError, and whatever exception ends the loader ends the callback with that
  same exception: the result is the exception alone, with none of the five outputs.
\<close>

theorem loader_failure_is_whole_failure:
  "(year \<notin> {''2017'', ''2030'', ''2050''} \<longrightarrow>
      update_dashboard ties_up base_dir read_csv year = Inl (KeyError year)) \<and>
   (\<forall>e. load_data base_dir read_csv year = Inl e \<longrightarrow>
      update_dashboard ties_up base_dir read_csv year = Inl e)"
  by (auto simp: update_dashboard_def load_data_def data_paths_def)

theorem loader_failure_is_whole_failure_witness:
  "''1999'' \<notin> {''2017'', ''2030'', ''2050''} \<and>
   update_dashboard ties_to_even ''/srv'' no_files ''1999'' = Inl (KeyError ''1999'') \<and>
   load_data ''/srv'' no_files ''2017''
     = Inl (FileNotFoundError ''/srv/data/2017/nitrogen_losses_summary.csv'') \<and>
   update_dashboard ties_to_even ''/srv'' no_files ''2017''
     = Inl (FileNotFoundError ''/srv/data/2017/nitrogen_losses_summary.csv'')"
proof -
  have y: "''1999'' \<notin> {''2017'', ''2030'', ''2050''}" by simp
  have l: "load_data ''/srv'' no_files ''2017''
     = Inl (FileNotFoundError ''/srv/data/2017/nitrogen_losses_summary.csv'')"
    by (simp add: load_data_def data_paths_def path_join_def no_files_def)
  from loader_failure_is_whole_failure [of "''1999''" ties_to_even "''/srv''" no_files] y
  have "update_dashboard ties_to_even ''/srv'' no_files ''1999'' = Inl (KeyError ''1999'')" by blast
  moreover from loader_failure_is_whole_failure [of "''2017''" ties_to_even "''/srv''" no_files] l
  have "update_dashboard ties_to_even ''/srv'' no_files ''2017''
     = Inl (FileNotFoundError ''/srv/data/2017/nitrogen_losses_summary.csv'')" by blast
  ultimately show ?thesis using y l by blast
qed

section \<open>The summary table\<close>



text \<open>
  C3 as stated fails. With 6000 in every category each of the seven rows shows 0.01,
  which add up to 0.07, while the total row shows 0.04: the total is rounded from the
  unrounded sums.
\<close>

theorem categories_sum_counterexample:
  "table_values (update_dashboard ties_to_even ''/srv''
        (sample_files sixes_crop sixes_animal) ''2017'')
     = Inr [1 / 100, 1 / 100, 1 / 100, 1 / 100, 1 / 100, 1 / 100, 1 / 100, 4 / 100] \<and>
   (1 / 100 + 1 / 100 + 1 / 100 + 1 / 100 + 1 / 100 + 1 / 100 + 1 / 100 :: real) \<noteq> 4 / 100"
  unfolding sixes_crop_def sixes_animal_def table_values_frames sixes_values by simp

text \<open>
  C3 as amended. The total row is the sum of the seven unrounded category values,
  rounded once to two decimals. It equals the sum of the seven values shown whenever
  rounding changes none of the seven, that is whenever every category value is a
  multiple of 0.01 already: then the seven rows show the category values themselves.
  The statement holds whichever way the decimal ties go.
\<close>

theorem total_is_sum_when_rounding_exact:
  assumes "update_dashboard ties_up base_dir read_csv year = Inr d"
  shows "\<exists>n a i crop_df animal_df t l1 l2 l3 l4 l5 l6 l7.
           load_data base_dir read_csv year = Inr (n, a, i, crop_df, animal_df, t) \<and>
           select_num crop_df crop_loss_columns = Inr [l1, l2] \<and>
           select_num animal_df animal_loss_columns = Inr [l3, l4, l5, l6, l7] \<and>
           last (total_column (loss_table d))
             = round2 (ties_up 0) (col_sum l1 / 10 ^ 6 + col_sum l2 / 10 ^ 6 + col_sum l3 / 10 ^ 6
                 + col_sum l4 / 10 ^ 6 + col_sum l5 / 10 ^ 6 + col_sum l6 / 10 ^ 6
                 + col_sum l7 / 10 ^ 6) \<and>
           ((\<forall>c \<in> set [l1, l2, l3, l4, l5, l6, l7].
                \<exists>k::int. col_sum c / 10 ^ 6 = of_int k / 100)
            \<longrightarrow> butlast (total_column (loss_table d))
                  = map (\<lambda>c. col_sum c / 10 ^ 6) [l1, l2, l3, l4, l5, l6, l7] \<and>
                sum_list (butlast (total_column (loss_table d)))
                  = last (total_column (loss_table d)))"
proof -
  from update_dashboard_Inr [OF assms] obtain n a i crop_df animal_df t where
    ld: "load_data base_dir read_csv year = Inr (n, a, i, crop_df, animal_df, t)"
    and tb: "nitrogen_loss_table ties_up crop_df animal_df = Inr (loss_table d)"
    by blast
  from nitrogen_loss_table_values [OF tb] obtain l1 l2 l3 l4 l5 l6 l7 where
    1: "select_num crop_df crop_loss_columns = Inr [l1, l2]"
    and 2: "select_num animal_df animal_loss_columns = Inr [l3, l4, l5, l6, l7]"
    and v: "total_column (loss_table d)
             = [round2 (ties_up 1) (col_sum l1 / 10 ^ 6), round2 (ties_up 1) (col_sum l2 / 10 ^ 6),
                round2 (ties_up 2) (col_sum l3 / 10 ^ 6), round2 (ties_up 2) (col_sum l4 / 10 ^ 6),
                round2 (ties_up 2) (col_sum l5 / 10 ^ 6), round2 (ties_up 2) (col_sum l6 / 10 ^ 6),
                round2 (ties_up 2) (col_sum l7 / 10 ^ 6),
                round2 (ties_up 0) ((col_sum l1 + col_sum l2 + col_sum l3 + col_sum l4 + col_sum l5
                             + col_sum l6 + col_sum l7) / 10 ^ 6)]"
    by blast
  let ?xs = "map (\<lambda>c. col_sum c / 10 ^ 6) [l1, l2, l3, l4, l5, l6, l7]"
  have s: "sum_list ?xs = (col_sum l1 + col_sum l2 + col_sum l3 + col_sum l4 + col_sum l5
                             + col_sum l6 + col_sum l7) / 10 ^ 6"
    by (simp add: add_divide_distrib)
  have l: "last (total_column (loss_table d))
             = round2 (ties_up 0) (col_sum l1 / 10 ^ 6 + col_sum l2 / 10 ^ 6 + col_sum l3 / 10 ^ 6
                 + col_sum l4 / 10 ^ 6 + col_sum l5 / 10 ^ 6 + col_sum l6 / 10 ^ 6
                 + col_sum l7 / 10 ^ 6)"
    by (simp add: v add_divide_distrib)
  have e: "(\<forall>c \<in> set [l1, l2, l3, l4, l5, l6, l7].
                \<exists>k::int. col_sum c / 10 ^ 6 = of_int k / 100)
            \<longrightarrow> butlast (total_column (loss_table d))
                  = map (\<lambda>c. col_sum c / 10 ^ 6) [l1, l2, l3, l4, l5, l6, l7] \<and>
                sum_list (butlast (total_column (loss_table d)))
                  = last (total_column (loss_table d))"
  proof
    assume ex: "\<forall>c \<in> set [l1, l2, l3, l4, l5, l6, l7].
                \<exists>k::int. col_sum c / 10 ^ 6 = of_int k / 100"
    have r: "round2 tu (col_sum c / 10 ^ 6) = col_sum c / 10 ^ 6"
      if "c \<in> set [l1, l2, l3, l4, l5, l6, l7]" for c tu
    proof -
      from ex that obtain k :: int where "col_sum c / 10 ^ 6 = of_int k / 100" by blast
      then show ?thesis by (simp only: round2_hundredths)
    qed
    have rs: "round2 (ties_up 1) (col_sum l1 / 10 ^ 6) = col_sum l1 / 10 ^ 6"
      "round2 (ties_up 1) (col_sum l2 / 10 ^ 6) = col_sum l2 / 10 ^ 6"
      "round2 (ties_up 2) (col_sum l3 / 10 ^ 6) = col_sum l3 / 10 ^ 6"
      "round2 (ties_up 2) (col_sum l4 / 10 ^ 6) = col_sum l4 / 10 ^ 6"
      "round2 (ties_up 2) (col_sum l5 / 10 ^ 6) = col_sum l5 / 10 ^ 6"
      "round2 (ties_up 2) (col_sum l6 / 10 ^ 6) = col_sum l6 / 10 ^ 6"
      "round2 (ties_up 2) (col_sum l7 / 10 ^ 6) = col_sum l7 / 10 ^ 6"
      by (rule r, simp)+
    have b: "butlast (total_column (loss_table d)) = ?xs"
      unfolding v rs by simp
    from ex have "\<forall>x \<in> set ?xs. \<exists>k::int. x = of_int k / 100" by simp
    from sum_list_hundredths [OF this]
    obtain k :: int where "sum_list ?xs = of_int k / 100" by blast
    then have "round2 (ties_up 0) (sum_list ?xs) = sum_list ?xs"
      by (simp only: round2_hundredths)
    then have "last (total_column (loss_table d)) = sum_list ?xs"
      unfolding s by (simp add: v)
    with b show "butlast (total_column (loss_table d))
                  = map (\<lambda>c. col_sum c / 10 ^ 6) [l1, l2, l3, l4, l5, l6, l7] \<and>
                sum_list (butlast (total_column (loss_table d)))
                  = last (total_column (loss_table d))" by simp
  qed
  from ld 1 2 l e show ?thesis by (intro exI conjI)
qed

theorem total_is_sum_when_rounding_exact_witness:
  "\<exists>d. update_dashboard ties_to_even ''/srv'' (sample_files doubled_crop doubled_animal) ''2017''
          = Inr d \<and>
       total_column (loss_table d) = [2, 2, 4, 4, 4, 4, 4, 24] \<and>
       sum_list (butlast (total_column (loss_table d))) = last (total_column (loss_table d))"
proof -
  let ?c = "[Some 1000000, Some 1000000] :: real option list"
  let ?a = "[Some 2000000, Some 2000000] :: real option list"
  from run_frames [of ties_to_even ?c ?c ?a ?a ?a ?a ?a] obtain d where
    u: "update_dashboard ties_to_even ''/srv'' (sample_files doubled_crop doubled_animal) ''2017''
          = Inr d"
    and tc: "total_column (loss_table d) = [2, 2, 4, 4, 4, 4, 4, 24]"
    unfolding doubled_values doubled_crop_def doubled_animal_def by (elim exE conjE) simp
  from total_is_sum_when_rounding_exact [OF u]
  obtain n a i crop_df animal_df t l1 l2 l3 l4 l5 l6 l7 where
    ld: "load_data ''/srv'' (sample_files doubled_crop doubled_animal) ''2017''
           = Inr (n, a, i, crop_df, animal_df, t)"
    and 1: "select_num crop_df crop_loss_columns = Inr [l1, l2]"
    and 2: "select_num animal_df animal_loss_columns = Inr [l3, l4, l5, l6, l7]"
    and e: "(\<forall>c \<in> set [l1, l2, l3, l4, l5, l6, l7].
                \<exists>k::int. col_sum c / 10 ^ 6 = of_int k / 100)
            \<longrightarrow> butlast (total_column (loss_table d))
                  = map (\<lambda>c. col_sum c / 10 ^ 6) [l1, l2, l3, l4, l5, l6, l7] \<and>
                sum_list (butlast (total_column (loss_table d)))
                  = last (total_column (loss_table d))"
    by blast
  from ld have "crop_df = loaded_crop_frame ?c ?c"
    and "animal_df = loaded_animal_frame [?a, ?a, ?a, ?a, ?a]"
    by (simp_all add: doubled_crop_def doubled_animal_def load_data_frames)
  with 1 2 have ls: "l1 = ?c" "l2 = ?c" "l3 = ?a" "l4 = ?a" "l5 = ?a" "l6 = ?a" "l7 = ?a"
    by (auto simp: select_num_loaded_crop select_num_loaded_animal)
  have "col_sum ?c / 10 ^ 6 = of_int 200 / 100" "col_sum ?a / 10 ^ 6 = of_int 400 / 100"
    by (simp_all add: col_sum_def val_def)
  then have "\<exists>k::int. col_sum ?c / 10 ^ 6 = of_int k / 100"
    "\<exists>k::int. col_sum ?a / 10 ^ 6 = of_int k / 100"
    by blast+
  then have "\<forall>c \<in> set [l1, l2, l3, l4, l5, l6, l7].
                \<exists>k::int. col_sum c / 10 ^ 6 = of_int k / 100"
    unfolding ls by simp
  with e have "sum_list (butlast (total_column (loss_table d)))
                  = last (total_column (loss_table d))" by blast
  with u tc show ?thesis by (intro exI [of _ d] conjI)
qed

section \<open>The end-to-end scenario for 2017\<close>

text \<open>
  C7 as stated fails. With two crop rows that each hold \<open>10 ^ 6\<close> in both loss columns
  and two animal rows that each hold \<open>2 * 10 ^ 6\<close> in all five, the table sums the rows
  of a column: it shows 2, 2, 4, 4, 4, 4, 4 and the total 24.
\<close>

theorem two_rows_counterexample:
  "table_values (update_dashboard ties_to_even ''/srv''
        (sample_files doubled_crop doubled_animal) ''2017'')
     = Inr [2, 2, 4, 4, 4, 4, 4, 24]"
  unfolding doubled_crop_def doubled_animal_def table_values_frames doubled_values by simp

text \<open>
  C7 as amended. For the year 2017, when the two crop loss columns each sum to
  \<open>10 ^ 6\<close> over the rows of the table and the five animal loss columns each sum to
  \<open>2 * 10 ^ 6\<close>, the summary table shows 1, 1, 2, 2, 2, 2, 2 and the total 12.
\<close>

theorem end_to_end_2017:
  assumes "update_dashboard ties_up base_dir read_csv ''2017'' = Inr d"
    and "load_data base_dir read_csv ''2017'' = Inr (n, a, i, crop_df, animal_df, t)"
    and "select_num crop_df crop_loss_columns = Inr cc"
    and "map col_sum cc = [10 ^ 6, 10 ^ 6]"
    and "select_num animal_df animal_loss_columns = Inr ac"
    and "map col_sum ac = [2 * 10 ^ 6, 2 * 10 ^ 6, 2 * 10 ^ 6, 2 * 10 ^ 6, 2 * 10 ^ 6]"
  shows "total_column (loss_table d) = [1, 1, 2, 2, 2, 2, 2, 12]"
proof -
  from update_dashboard_Inr [OF assms(1)] assms(2)
  have tb: "nitrogen_loss_table ties_up crop_df animal_df = Inr (loss_table d)" by auto
  from nitrogen_loss_table_values [OF tb] obtain l1 l2 l3 l4 l5 l6 l7 where
    1: "select_num crop_df crop_loss_columns = Inr [l1, l2]"
    and 2: "select_num animal_df animal_loss_columns = Inr [l3, l4, l5, l6, l7]"
    and v: "total_column (loss_table d)
             = [round2 (ties_up 1) (col_sum l1 / 10 ^ 6), round2 (ties_up 1) (col_sum l2 / 10 ^ 6),
                round2 (ties_up 2) (col_sum l3 / 10 ^ 6), round2 (ties_up 2) (col_sum l4 / 10 ^ 6),
                round2 (ties_up 2) (col_sum l5 / 10 ^ 6), round2 (ties_up 2) (col_sum l6 / 10 ^ 6),
                round2 (ties_up 2) (col_sum l7 / 10 ^ 6),
                round2 (ties_up 0) ((col_sum l1 + col_sum l2 + col_sum l3 + col_sum l4 + col_sum l5
                             + col_sum l6 + col_sum l7) / 10 ^ 6)]"
    by blast
  from 1 assms(3) have "cc = [l1, l2]" by simp
  with assms(4) have c: "col_sum l1 = 10 ^ 6" "col_sum l2 = 10 ^ 6" by simp_all
  from 2 assms(5) have "ac = [l3, l4, l5, l6, l7]" by simp
  with assms(6) have a: "col_sum l3 = 2 * 10 ^ 6" "col_sum l4 = 2 * 10 ^ 6"
    "col_sum l5 = 2 * 10 ^ 6" "col_sum l6 = 2 * 10 ^ 6" "col_sum l7 = 2 * 10 ^ 6"
    by simp_all
  show ?thesis
    unfolding v c a by (simp add: round2_def)
qed

theorem end_to_end_2017_witness:
  "\<exists>d. update_dashboard ties_to_even ''/srv''
        (sample_files sample_crop sample_animal) ''2017'' = Inr d \<and>
       load_data ''/srv'' (sample_files sample_crop sample_animal) ''2017''
         = Inr (sample_summary, sample_area, sample_inventory, loaded_crop, loaded_animal,
                loaded_total) \<and>
       select_num loaded_crop crop_loss_columns
         = Inr [[Some 500000, Some 500000], [Some 1000000, None]] \<and>
       map col_sum [[Some 500000, Some 500000], [Some 1000000, None]] = [10 ^ 6, 10 ^ 6] \<and>
       select_num loaded_animal animal_loss_columns
         = Inr [[Some 2000000, Some 0], [Some 1000000, Some 1000000],
                [None, Some 2000000], [Some 1500000, Some 500000], [Some 2000000, Some 0]] \<and>
       map col_sum [[Some 2000000, Some 0], [Some 1000000, Some 1000000],
                [None, Some 2000000], [Some 1500000, Some 500000], [Some 2000000, Some 0]]
         = [2 * 10 ^ 6, 2 * 10 ^ 6, 2 * 10 ^ 6, 2 * 10 ^ 6, 2 * 10 ^ 6] \<and>
       total_column (loss_table d) = [1, 1, 2, 2, 2, 2, 2, 12]"
proof -
  from run_frames [of ties_to_even "[Some 500000, Some 500000]" "[Some 1000000, None]"
      "[Some 2000000, Some 0]" "[Some 1000000, Some 1000000]" "[None, Some 2000000]"
      "[Some 1500000, Some 500000]" "[Some 2000000, Some 0]"]
  obtain d where
    u: "update_dashboard ties_to_even ''/srv''
          (sample_files sample_crop sample_animal) ''2017'' = Inr d"
    unfolding sample_crop_def sample_animal_def by (elim exE conjE)
  have 1: "select_num loaded_crop crop_loss_columns
         = Inr [[Some 500000, Some 500000], [Some 1000000, None]]"
    by (simp add: loaded_crop_def crop_loss_columns_def get_num_def get_column_def)
  have 2: "map col_sum [[Some 500000, Some 500000], [Some 1000000, None]]
         = [10 ^ 6, 10 ^ 6]"
    by (simp add: col_sum_def val_def)
  have 3: "select_num loaded_animal animal_loss_columns
         = Inr [[Some 2000000, Some 0], [Some 1000000, Some 1000000],
                [None, Some 2000000], [Some 1500000, Some 500000], [Some 2000000, Some 0]]"
    by (simp add: loaded_animal_def animal_loss_columns_def get_num_def get_column_def)
  have 4: "map col_sum [[Some 2000000, Some 0], [Some 1000000, Some 1000000],
                [None, Some 2000000], [Some 1500000, Some 500000], [Some 2000000, Some 0]]
         = [2 * 10 ^ 6, 2 * 10 ^ 6, 2 * 10 ^ 6, 2 * 10 ^ 6, 2 * 10 ^ 6]"
    by (simp add: col_sum_def val_def)
  from end_to_end_2017 [OF u load_data_sample 1 2 3 4]
  have "total_column (loss_table d) = [1, 1, 2, 2, 2, 2, 2, 12]" .
  from u load_data_sample 1 2 3 4 this show ?thesis by (intro exI conjI)
qed

section \<open>The inventory and harvested-area section\<close>



section \<open>The commodity tables of the stages\<close>




section \<open>The county totals\<close>

text \<open>
  C6. When the loader succeeds on rectangular files, the table of county totals has
  exactly one row for every FIPS key that occurs in the crop-stage or in the
  animal-stage table. Its total is the sum of the totals of the crop rows with that key
  plus the sum of the totals of the animal rows with that key; a table in which the
  key does not occur adds 0, so for a key of one table the total is that table's
  value alone. Its county is the name of the first row that has that key and a name,
  in the order of the concatenation (the crop rows, then the animal rows): every row
  with that key before it has no name, a later row with another name for that key is
  not looked at, and the county is missing only where no row with that key has a name.
\<close>

theorem county_totals_grouped:
  assumes "load_data base_dir read_csv year
             = Inr (nitrogen_df, area_df, inventory_df, crop_df, animal_df, total_df)"
    and "wf_files read_csv"
  shows "\<exists>cf cc ct af ac atot.
           get_num crop_df ''FIPS'' = Inr cf \<and> get_str crop_df ''county'' = Inr cc \<and>
           get_num crop_df ''total_nitrogen_loss'' = Inr ct \<and>
           get_num animal_df ''FIPS'' = Inr af \<and> get_str animal_df ''county'' = Inr ac \<and>
           get_num animal_df ''total_nitrogen_loss'' = Inr atot \<and>
           distinct (group_keys (cf @ af)) \<and>
           set (group_keys (cf @ af)) = {k. Some k \<in> set cf \<or> Some k \<in> set af} \<and>
           total_df =
             [(''FIPS'', NumCol (map Some (group_keys (cf @ af)))),
              (''total_nitrogen_loss'',
               NumCol (map (\<lambda>k. Some
                  ((\<Sum>(k', v) \<leftarrow> zip cf ct. if k' = Some k then val v else 0)
                   + (\<Sum>(k', v) \<leftarrow> zip af atot. if k' = Some k then val v else 0)))
                 (group_keys (cf @ af)))),
              (''county'',
               StrCol (map (\<lambda>k. first_valid (group_vals cf cc k @ group_vals af ac k))
                 (group_keys (cf @ af))))] \<and>
           (\<forall>k. Some k \<notin> set cf \<longrightarrow>
              (\<Sum>(k', v) \<leftarrow> zip cf ct. if k' = Some k then val v else 0) = 0 \<and>
              group_vals cf cc k = []) \<and>
           (\<forall>k. Some k \<notin> set af \<longrightarrow>
              (\<Sum>(k', v) \<leftarrow> zip af atot. if k' = Some k then val v else 0) = 0 \<and>
              group_vals af ac k = []) \<and>
           length (cf @ af) = length (cc @ ac) \<and>
           (\<forall>k. (first_valid (group_vals cf cc k @ group_vals af ac k) = None \<and>
                 (\<forall>i<length (cf @ af). (cf @ af) ! i = Some k \<longrightarrow> (cc @ ac) ! i = None)) \<or>
                (\<exists>i<length (cf @ af).
                   (cf @ af) ! i = Some k \<and> (cc @ ac) ! i \<noteq> None \<and>
                   first_valid (group_vals cf cc k @ group_vals af ac k) = (cc @ ac) ! i \<and>
                   (\<forall>j<i. (cf @ af) ! j = Some k \<longrightarrow> (cc @ ac) ! j = None)))"
proof -
  from load_data_Inr [OF assms(1)] obtain path crop0 animal0 where
    rc: "read_csv (path_join path ''crop_processing_nitrogen.csv'') = Inr crop0"
    and ra: "read_csv (path_join path ''animal_stage_nitrogen.csv'') = Inr animal0"
    and adc: "add_total crop_loss_columns (rename_columns rename_col crop0) = Inr crop_df"
    and ada: "add_total animal_loss_columns (rename_columns rename_col animal0)
                = Inr animal_df"
    and tn: "total_nitrogen crop_df animal_df = Inr total_df"
    by blast
  have wc: "wf_frame (rename_columns rename_col crop0)"
    and wa: "wf_frame (rename_columns rename_col animal0)"
    using assms(2) rc ra by (simp_all add: wf_files_def)
  from total_nitrogen_Inr [OF tn] obtain cf cc ct af ac atot where
    g: "get_num crop_df ''FIPS'' = Inr cf" "get_str crop_df ''county'' = Inr cc"
      "get_num crop_df ''total_nitrogen_loss'' = Inr ct"
    and h: "get_num animal_df ''FIPS'' = Inr af" "get_str animal_df ''county'' = Inr ac"
      "get_num animal_df ''total_nitrogen_loss'' = Inr atot"
    and t: "total_df = county_totals (cf @ af) (cc @ ac) (ct @ atot)"
    by blast
  have "crop_loss_columns \<noteq> []" by (simp add: crop_loss_columns_def)
  from add_total_lengths [OF adc wc this g]
  have lc: "length cf = length cc" "length cf = length ct" by simp_all
  have "animal_loss_columns \<noteq> []" by (simp add: animal_loss_columns_def)
  from add_total_lengths [OF ada wa this h]
  have la: "length af = length ac" by simp
  have 1: "distinct (group_keys (cf @ af))"
    by (rule group_keys_props)
  have 2: "set (group_keys (cf @ af)) = {k. Some k \<in> set cf \<or> Some k \<in> set af}"
    by (simp add: group_keys_props)
  have 3: "total_df =
             [(''FIPS'', NumCol (map Some (group_keys (cf @ af)))),
              (''total_nitrogen_loss'',
               NumCol (map (\<lambda>k. Some
                  ((\<Sum>(k', v) \<leftarrow> zip cf ct. if k' = Some k then val v else 0)
                   + (\<Sum>(k', v) \<leftarrow> zip af atot. if k' = Some k then val v else 0)))
                 (group_keys (cf @ af)))),
              (''county'',
               StrCol (map (\<lambda>k. first_valid (group_vals cf cc k @ group_vals af ac k))
                 (group_keys (cf @ af))))]"
    unfolding t county_totals_def Let_def group_first_def
      group_sum_append [OF lc(2)] group_vals_append [OF lc(1)]
    unfolding group_sum_eq ..
  have 4: "\<forall>k. Some k \<notin> set cf \<longrightarrow>
              (\<Sum>(k', v) \<leftarrow> zip cf ct. if k' = Some k then val v else 0) = 0 \<and>
              group_vals cf cc k = []"
    using group_sum_absent [of _ cf ct] group_vals_absent [of _ cf cc]
    unfolding group_sum_eq by blast
  have 5: "\<forall>k. Some k \<notin> set af \<longrightarrow>
              (\<Sum>(k', v) \<leftarrow> zip af atot. if k' = Some k then val v else 0) = 0 \<and>
              group_vals af ac k = []"
    using group_sum_absent [of _ af atot] group_vals_absent [of _ af ac]
    unfolding group_sum_eq by blast
  have 6: "length (cf @ af) = length (cc @ ac)"
    using lc(1) la by simp
  have 7: "\<forall>k. (first_valid (group_vals cf cc k @ group_vals af ac k) = None \<and>
                 (\<forall>i<length (cf @ af). (cf @ af) ! i = Some k \<longrightarrow> (cc @ ac) ! i = None)) \<or>
                (\<exists>i<length (cf @ af).
                   (cf @ af) ! i = Some k \<and> (cc @ ac) ! i \<noteq> None \<and>
                   first_valid (group_vals cf cc k @ group_vals af ac k) = (cc @ ac) ! i \<and>
                   (\<forall>j<i. (cf @ af) ! j = Some k \<longrightarrow> (cc @ ac) ! j = None))"
    using first_valid_group [OF 6] unfolding group_vals_append [OF lc(1)] ..
  from g h 1 2 3 4 5 6 7 show ?thesis by (intro exI conjI)
qed

theorem county_totals_grouped_witness:
  "load_data ''/srv'' (sample_files names_crop names_animal) ''2017''
     = Inr (sample_summary, sample_area, sample_inventory, names_crop_loaded,
            names_animal_loaded, names_total) \<and>
   wf_files (sample_files names_crop names_animal) \<and>
   get_num names_crop_loaded ''FIPS'' = Inr [Some 24003, Some 24001, Some 24003] \<and>
   get_str names_crop_loaded ''county''
     = Inr [None, Some ''Allegany'', Some ''Anne Arundel''] \<and>
   get_num names_crop_loaded ''total_nitrogen_loss'' = Inr [Some 110, Some 200, Some 330] \<and>
   get_num names_animal_loaded ''FIPS'' = Inr [Some 24003, Some 24005] \<and>
   get_str names_animal_loaded ''county''
     = Inr [Some ''A. Arundel County'', Some ''Baltimore''] \<and>
   get_num names_animal_loaded ''total_nitrogen_loss'' = Inr [Some 5, Some 8] \<and>
   get_num names_total ''FIPS'' = Inr [Some 24001, Some 24003, Some 24005] \<and>
   get_num names_total ''total_nitrogen_loss''
     = Inr [Some 200, Some (110 + 330 + 5), Some 8] \<and>
   get_str names_total ''county''
     = Inr [Some ''Allegany'', Some ''Anne Arundel'', Some ''Baltimore''] \<and>
   first_valid (group_vals [Some 24003, Some 24001, Some (24003::real)]
                  [None, Some ''Allegany'', Some ''Anne Arundel''] 24003
                @ group_vals [Some 24003, Some (24005::real)]
                    [Some ''A. Arundel County'', Some ''Baltimore''] 24003)
     = Some ''Anne Arundel''"
proof -
  note w = wf_sample_files [OF wf_names_crop wf_names_animal]
  have c: "get_num names_crop_loaded ''FIPS'' = Inr [Some 24003, Some 24001, Some 24003]"
    and cc: "get_str names_crop_loaded ''county''
               = Inr [None, Some ''Allegany'', Some ''Anne Arundel'']"
    and ct: "get_num names_crop_loaded ''total_nitrogen_loss''
               = Inr [Some 110, Some 200, Some 330]"
    by (simp_all add: get_num_def get_str_def get_column_def names_crop_loaded_def
        names_crop_def)
  have a: "get_num names_animal_loaded ''FIPS'' = Inr [Some 24003, Some 24005]"
    and ac: "get_str names_animal_loaded ''county''
               = Inr [Some ''A. Arundel County'', Some ''Baltimore'']"
    and at: "get_num names_animal_loaded ''total_nitrogen_loss'' = Inr [Some 5, Some 8]"
    by (simp_all add: get_num_def get_str_def get_column_def names_animal_loaded_def
        names_animal_def)
  have t: "get_num names_total ''FIPS'' = Inr [Some 24001, Some 24003, Some 24005]"
    "get_num names_total ''total_nitrogen_loss''
       = Inr [Some 200, Some (110 + 330 + 5), Some 8]"
    "get_str names_total ''county''
       = Inr [Some ''Allegany'', Some ''Anne Arundel'', Some ''Baltimore'']"
    by (simp_all add: get_num_def get_str_def get_column_def names_total_def)
  let ?K = "[Some 24003, Some 24001, Some 24003] @ [Some 24003, Some (24005::real)]"
  let ?N = "[None, Some ''Allegany'', Some ''Anne Arundel'']
            @ [Some ''A. Arundel County'', Some ''Baltimore'']"
  let ?f = "first_valid (group_vals [Some 24003, Some 24001, Some (24003::real)]
                  [None, Some ''Allegany'', Some ''Anne Arundel''] 24003
                @ group_vals [Some 24003, Some (24005::real)]
                    [Some ''A. Arundel County'', Some ''Baltimore''] 24003)"
  from county_totals_grouped [OF load_data_names w] obtain cf cc' af ac' where
    "get_num names_crop_loaded ''FIPS'' = Inr cf"
    "get_str names_crop_loaded ''county'' = Inr cc'"
    "get_num names_animal_loaded ''FIPS'' = Inr af"
    "get_str names_animal_loaded ''county'' = Inr ac'"
    and ch: "\<forall>k. (first_valid (group_vals cf cc' k @ group_vals af ac' k) = None \<and>
                 (\<forall>i<length (cf @ af). (cf @ af) ! i = Some k \<longrightarrow> (cc' @ ac') ! i = None)) \<or>
                (\<exists>i<length (cf @ af).
                   (cf @ af) ! i = Some k \<and> (cc' @ ac') ! i \<noteq> None \<and>
                   first_valid (group_vals cf cc' k @ group_vals af ac' k) = (cc' @ ac') ! i \<and>
                   (\<forall>j<i. (cf @ af) ! j = Some k \<longrightarrow> (cc' @ ac') ! j = None))"
    by blast
  with c cc a ac have e: "cf = [Some 24003, Some 24001, Some 24003]"
    "cc' = [None, Some ''Allegany'', Some ''Anne Arundel'']"
    "af = [Some 24003, Some 24005]"
    "ac' = [Some ''A. Arundel County'', Some ''Baltimore'']"
    by simp_all
  from ch [unfolded e] have
    "(?f = None \<and> (\<forall>i<length ?K. ?K ! i = Some 24003 \<longrightarrow> ?N ! i = None)) \<or>
     (\<exists>i<length ?K. ?K ! i = Some 24003 \<and> ?N ! i \<noteq> None \<and> ?f = ?N ! i \<and>
        (\<forall>j<i. ?K ! j = Some 24003 \<longrightarrow> ?N ! j = None))"
    by (rule spec)
  then have f: "?f = Some ''Anne Arundel''"
  proof
    assume "?f = None \<and> (\<forall>i<length ?K. ?K ! i = Some 24003 \<longrightarrow> ?N ! i = None)"
    then have "2 < length ?K \<longrightarrow> ?K ! 2 = Some 24003 \<longrightarrow> ?N ! 2 = None" by blast
    then show ?thesis by simp
  next
    assume "\<exists>i<length ?K. ?K ! i = Some 24003 \<and> ?N ! i \<noteq> None \<and> ?f = ?N ! i \<and>
        (\<forall>j<i. ?K ! j = Some 24003 \<longrightarrow> ?N ! j = None)"
    then obtain i where i: "i < length ?K" "?K ! i = Some 24003" "?N ! i \<noteq> None"
      "?f = ?N ! i" "\<forall>j<i. ?K ! j = Some 24003 \<longrightarrow> ?N ! j = None" by blast
    from i(1) consider "i = 0" | "i = 1" | "i = 2" | "i = 3" | "i = 4"
      by (simp add: less_Suc_eq numeral_eq_Suc) blast
    then show ?thesis
    proof cases
      case 1 with i(3) show ?thesis by simp
    next
      case 2 with i(2) show ?thesis by simp
    next
      case 3 with i(4) show ?thesis by simp
    next
      case 4
      with i(5) have "(2::nat) < 3 \<longrightarrow> ?K ! 2 = Some 24003 \<longrightarrow> ?N ! 2 = None" by blast
      then show ?thesis by simp
    next
      case 5 with i(2) show ?thesis by simp
    qed
  qed
  from load_data_names w c cc ct a ac at t f show ?thesis by (intro conjI)
qed

end
